theory Spec2Isabelle
  imports Main
begin

section \<open>Strings, paths and formatting as the script uses them\<close>

text \<open>
  The script \<open>tools/build-webrtc.py\<close> works on Python strings. They are modelled as
  \<open>string\<close>; the few library functions the script calls are written out here.
\<close>

text \<open>\<open>sep.join(xs)\<close>.\<close>

fun join :: "string \<Rightarrow> string list \<Rightarrow> string" where
  "join sep [] = []"
| "join sep [x] = x"
| "join sep (x # y # ys) = x @ sep @ join sep (y # ys)"

text \<open>\<open>s.startswith(p)\<close> and \<open>s.endswith(p)\<close>.\<close>

definition startswith :: "string \<Rightarrow> string \<Rightarrow> bool" where
  "startswith s p = (take (length p) s = p)"

definition endswith :: "string \<Rightarrow> string \<Rightarrow> bool" where
  "endswith s p = (length p \<le> length s \<and> drop (length s - length p) s = p)"

text \<open>\<open>s.split(c)\<close> for a one-character separator: never the empty list.\<close>

fun split :: "char \<Rightarrow> string \<Rightarrow> string list" where
  "split c [] = [[]]"
| "split c (x # xs) =
     (if x = c then [] # split c xs
      else (case split c xs of [] \<Rightarrow> [[x]] | w # ws \<Rightarrow> (x # w) # ws))"

text \<open>
  \<open>posixpath.join(a, b)\<close>: an absolute second component replaces the first; otherwise
  one separator is put between the two unless the first is empty or already ends with one.
  \<open>os_path_join a ps\<close> is \<open>os.path.join(a, *ps)\<close>.
\<close>

definition path_join :: "string \<Rightarrow> string \<Rightarrow> string" where
  "path_join a b =
     (if startswith b ''/'' then b
      else if a = [] \<or> endswith a ''/'' then a @ b
      else a @ ''/'' @ b)"

definition os_path_join :: "string \<Rightarrow> string list \<Rightarrow> string" where
  "os_path_join a ps = foldl path_join a ps"

text \<open>The exceptions the script can meet.\<close>

datatype exn =
    SystemExit int
  | CalledProcessError int
  | KeyboardInterrupt
  | OSError int
  | KeyError string
  | IndexError
  | ValueError
  | TypeError

text \<open>
  \<open>fmt % args\<close> for the conversions that occur in the script: \<open>%s\<close> takes the next
  argument, \<open>%%\<close> is a percent sign. Too few arguments, or arguments left over, raise
  \<open>TypeError\<close>; a percent sign followed by nothing or by another character raises
  \<open>ValueError\<close> (the script's format strings hold no other conversion).
\<close>

fun percent :: "string \<Rightarrow> string list \<Rightarrow> exn + string" where
  "percent [] [] = Inr []"
| "percent [] (a # as) = Inl TypeError"
| "percent (c # cs) args =
     (if c \<noteq> CHR ''%'' then map_sum id ((#) c) (percent cs args)
      else (case cs of
              [] \<Rightarrow> Inl ValueError
            | d # ds \<Rightarrow>
                if d = CHR ''s'' then
                  (case args of
                     [] \<Rightarrow> Inl TypeError
                   | a # as \<Rightarrow> map_sum id ((@) a) (percent ds as))
                else if d = CHR ''%'' then map_sum id ((#) CHR ''%'') (percent ds args)
                else Inl ValueError))"

text \<open>\<open>str(b).lower()\<close> for a boolean.\<close>

definition str_lower_bool :: "bool \<Rightarrow> string" where
  "str_lower_bool b = (if b then ''true'' else ''false'')"

text \<open>\<open>xs[0]\<close> and the unpacking \<open>a, b = xs\<close>.\<close>

definition index0 :: "'a list \<Rightarrow> exn + 'a" where
  "index0 xs = (case xs of [] \<Rightarrow> Inl IndexError | x # _ \<Rightarrow> Inr x)"

fun unpack2 :: "'a list \<Rightarrow> exn + ('a \<times> 'a)" where
  "unpack2 [a, b] = Inr (a, b)"
| "unpack2 _ = Inl ValueError"

text \<open>
  A dictionary of strings (the process environment, the ABI table) is an association
  list: \<open>d[k]\<close> raises \<open>KeyError\<close> on a missing key, \<open>d[k] = v\<close> overwrites in place or
  appends.
\<close>

type_synonym dict = "(string \<times> string) list"

definition dict_get :: "dict \<Rightarrow> string \<Rightarrow> exn + string" where
  "dict_get d k = (case map_of d k of None \<Rightarrow> Inl (KeyError k) | Some v \<Rightarrow> Inr v)"

fun dict_set :: "string \<Rightarrow> string \<Rightarrow> dict \<Rightarrow> dict" where
  "dict_set k v [] = [(k, v)]"
| "dict_set k v ((k', v') # d) =
     (if k' = k then (k, v) # d else (k', v') # dict_set k v d)"

section \<open>Constants\<close>

text \<open>
  Lines 13 to 71. The script's lists \<open>_GN_APPLE_COMMON\<close>, \<open>_GN_IOS_ARGS\<close>,
  \<open>_GN_MACOS_ARGS\<close> and \<open>_GN_ANDROID_ARGS\<close> are \<open>GN_APPLE_COMMON\<close>,
  \<open>GN_IOS_ARGS_list\<close>, \<open>GN_MACOS_ARGS_list\<close> and \<open>GN_ANDROID_ARGS_list\<close> here; the
  strings built from them keep their names.
\<close>

definition ANDROID_CPU_ABI_MAP :: dict where
  "ANDROID_CPU_ABI_MAP =
     [(''arm'', ''armeabi-v7a''),
      (''arm64'', ''arm64-v8a''),
      (''x86'', ''x86''),
      (''x64'', ''x86_64'')]"

definition ANDROID_BUILD_CPUS :: "string list" where
  "ANDROID_BUILD_CPUS = [''arm'', ''arm64'', ''x86'', ''x64'']"

definition IOS_BUILD_ARCHS :: "string list" where
  "IOS_BUILD_ARCHS = [''device:arm64'', ''simulator:arm64'', ''simulator:x64'']"

definition MACOS_BUILD_ARCHS :: "string list" where
  "MACOS_BUILD_ARCHS = [''x64'']"

definition GN_COMMON_ARGS :: "string list" where
  "GN_COMMON_ARGS =
     [''treat_warnings_as_errors=false'',
      ''is_component_build=false'',
      ''rtc_libvpx_build_vp9=true'',
      ''is_debug=%s'',
      ''target_cpu=\"%s\"'']"

definition build_gn_args :: "string list \<Rightarrow> string" where
  "build_gn_args platform_args =
     ''--args='' @ [CHR 0x27] @ join '' '' (GN_COMMON_ARGS @ platform_args) @ [CHR 0x27]"

definition GN_APPLE_COMMON :: "string list" where
  "GN_APPLE_COMMON = [''enable_dsyms=true'', ''rtc_include_tests=false'']"

definition GN_IOS_ARGS_list :: "string list" where
  "GN_IOS_ARGS_list =
     [''enable_ios_bitcode=true'',
      ''ios_deployment_target=\"11.0\"'',
      ''ios_enable_code_signing=false'',
      ''target_os=\"ios\"'',
      ''use_xcode_clang=true'',
      ''target_environment=\"%s\"'']"

definition GN_IOS_ARGS :: string where
  "GN_IOS_ARGS = build_gn_args (GN_APPLE_COMMON @ GN_IOS_ARGS_list)"

definition GN_MACOS_ARGS_list :: "string list" where
  "GN_MACOS_ARGS_list = [''target_os=\"mac\"'', ''use_xcode_clang=false'']"

definition GN_MACOS_ARGS :: string where
  "GN_MACOS_ARGS = build_gn_args (GN_APPLE_COMMON @ GN_MACOS_ARGS_list)"

definition GN_ANDROID_ARGS_list :: "string list" where
  "GN_ANDROID_ARGS_list = [''target_os=\"android\"'']"

definition GN_ANDROID_ARGS :: string where
  "GN_ANDROID_ARGS = build_gn_args GN_ANDROID_ARGS_list"

section \<open>Pure parts of the build\<close>

text \<open>
  \<open>build\<close>, lines 169 to 178 (and \<open>sync\<close>, lines 143 to 152, word for word the same):
  the environment handed to the external tools. \<open>environ\<close> is \<open>os.environ.copy()\<close>.
\<close>

definition prepare_environment :: "dict \<Rightarrow> string \<Rightarrow> string \<Rightarrow> string \<Rightarrow> exn + dict" where
  "prepare_environment environ platform depot_tools_dir webrtc_dir =
     (case dict_get environ ''PATH'' of
        Inl e \<Rightarrow> Inl e
      | Inr p \<Rightarrow>
          (let path_parts = [p, depot_tools_dir];
               path_parts =
                 (if platform = ''android'' then
                    (let android_sdk_root = path_join webrtc_dir ''third_party/android_sdk/public''
                     in path_parts
                          @ [path_join android_sdk_root ''platform-tools'']
                          @ [path_join android_sdk_root ''tools'']
                          @ [path_join webrtc_dir ''build/android''])
                  else path_parts)
           in Inr (dict_set ''PATH'' (join '':'' path_parts) environ)))"

text \<open>\<open>setup\<close>, lines 112 to 114.\<close>

definition setup_environment :: "dict \<Rightarrow> string \<Rightarrow> exn + dict" where
  "setup_environment environ depot_tools_dir =
     (case dict_get environ ''PATH'' of
        Inl e \<Rightarrow> Inl e
      | Inr p \<Rightarrow> Inr (dict_set ''PATH'' (p @ '':'' @ depot_tools_dir) environ))"

text \<open>
  \<open>build\<close>, lines 229 and 230: the simulator entries of the architecture list, in list
  order, and the first of them. The script applies both to \<open>IOS_BUILD_ARCHS\<close>; the list
  is a parameter here so that other lists can be compared.
\<close>

definition simulators_of :: "string list \<Rightarrow> string list" where
  "simulators_of archs = filter (\<lambda>item. startswith item ''simulator'') archs"

definition canonical_simulator :: "string list \<Rightarrow> exn + string" where
  "canonical_simulator archs = index0 (simulators_of archs)"

section \<open>The outside world and the script's effects\<close>

text \<open>
  Every call that leaves the script is an event. A run appends its events to a log, and
  what a call does is decided by the world, which sees the log so far.
\<close>

datatype fs_op =
    Makedirs string
  | Rmtree string
  | Chdir string
  | Copytree string string
  | Move string string
  | Copy string string

datatype event =
    Print string
  | CheckCall string "dict option" "string option"
  | FsCall fs_op

text \<open>
  \<open>subprocess.check_call\<close> ends with the child's return code, with an interrupt
  arriving while it waits, or with an \<open>OSError\<close> (the child could not be started).
  A call on the file system succeeds or raises \<open>OSError\<close> with an error number;
  \<open>os.path.isdir\<close> answers yes or no.
\<close>

datatype call_result = Returncode int | Interrupt | SpawnError int

record world =
  check_call_result :: "event list \<Rightarrow> string \<Rightarrow> dict option \<Rightarrow> string option \<Rightarrow> call_result"
  os_error :: "event list \<Rightarrow> fs_op \<Rightarrow> int option"
  path_isdir :: "event list \<Rightarrow> string \<Rightarrow> bool"

type_synonym 'a prog = "world \<Rightarrow> event list \<Rightarrow> (exn + 'a) \<times> event list"

definition return :: "'a \<Rightarrow> 'a prog" where
  "return x = (\<lambda>w l. (Inr x, l))"

definition throw :: "exn \<Rightarrow> 'a prog" where
  "throw e = (\<lambda>w l. (Inl e, l))"

definition bind :: "'a prog \<Rightarrow> ('a \<Rightarrow> 'b prog) \<Rightarrow> 'b prog" where
  "bind m f = (\<lambda>w l. case m w l of (Inl e, l') \<Rightarrow> (Inl e, l') | (Inr x, l') \<Rightarrow> f x w l')"

definition seq :: "unit prog \<Rightarrow> 'b prog \<Rightarrow> 'b prog" where
  "seq m n = bind m (\<lambda>_. n)"

text \<open>A pure computation that may raise.\<close>

definition lift :: "exn + 'a \<Rightarrow> 'a prog" where
  "lift r = (case r of Inl e \<Rightarrow> throw e | Inr x \<Rightarrow> return x)"

text \<open>\<open>try: m except e: h e\<close>; a handler re-raises what it does not catch.\<close>

definition try_except :: "'a prog \<Rightarrow> (exn \<Rightarrow> 'a prog) \<Rightarrow> 'a prog" where
  "try_except m h = (\<lambda>w l. case m w l of (Inl e, l') \<Rightarrow> h e w l' | (Inr x, l') \<Rightarrow> (Inr x, l'))"

text \<open>\<open>for x in xs: body x\<close>, and the same loop when it updates a local variable.\<close>

fun for_each :: "('a \<Rightarrow> unit prog) \<Rightarrow> 'a list \<Rightarrow> unit prog" where
  "for_each body [] = return ()"
| "for_each body (x # xs) = seq (body x) (for_each body xs)"

fun fold_each :: "('a \<Rightarrow> 'b \<Rightarrow> 'b prog) \<Rightarrow> 'a list \<Rightarrow> 'b \<Rightarrow> 'b prog" where
  "fold_each body [] acc = return acc"
| "fold_each body (x # xs) acc = bind (body x acc) (fold_each body xs)"

subsection \<open>Library calls\<close>

definition print :: "string \<Rightarrow> unit prog" where
  "print s = (\<lambda>w l. (Inr (), l @ [Print s]))"

definition sys_exit :: "int \<Rightarrow> 'a prog" where
  "sys_exit code = throw (SystemExit code)"

definition check_call :: "string \<Rightarrow> dict option \<Rightarrow> string option \<Rightarrow> unit prog" where
  "check_call cmd env cwd = (\<lambda>w l.
     ((case check_call_result w l cmd env cwd of
         Returncode c \<Rightarrow> if c = 0 then Inr () else Inl (CalledProcessError c)
       | Interrupt \<Rightarrow> Inl KeyboardInterrupt
       | SpawnError n \<Rightarrow> Inl (OSError n)),
      l @ [CheckCall cmd env cwd]))"

definition fs_call :: "fs_op \<Rightarrow> unit prog" where
  "fs_call op = (\<lambda>w l.
     ((case os_error w l op of None \<Rightarrow> Inr () | Some n \<Rightarrow> Inl (OSError n)), l @ [FsCall op]))"

definition os_makedirs :: "string \<Rightarrow> unit prog" where
  "os_makedirs path = fs_call (Makedirs path)"

definition shutil_rmtree :: "string \<Rightarrow> unit prog" where
  "shutil_rmtree path = fs_call (Rmtree path)"

definition os_chdir :: "string \<Rightarrow> unit prog" where
  "os_chdir path = fs_call (Chdir path)"

definition shutil_copytree :: "string \<Rightarrow> string \<Rightarrow> unit prog" where
  "shutil_copytree src dst = fs_call (Copytree src dst)"

definition shutil_move :: "string \<Rightarrow> string \<Rightarrow> unit prog" where
  "shutil_move src dst = fs_call (Move src dst)"

definition shutil_copy :: "string \<Rightarrow> string \<Rightarrow> unit prog" where
  "shutil_copy src dst = fs_call (Copy src dst)"

definition isdir :: "string \<Rightarrow> bool prog" where
  "isdir path = (\<lambda>w l. (Inr (path_isdir w l path), l))"

definition EEXIST :: int where "EEXIST = 17"
definition ENOENT :: int where "ENOENT = 2"

subsection \<open>Utilities (lines 76 to 97)\<close>

definition sh :: "string \<Rightarrow> dict option \<Rightarrow> string option \<Rightarrow> unit prog" where
  "sh cmd env cwd =
     seq (print (''Running cmd: '' @ cmd))
       (try_except (check_call cmd env cwd)
          (\<lambda>e. case e of
                  CalledProcessError returncode \<Rightarrow> sys_exit returncode
                | KeyboardInterrupt \<Rightarrow> return ()
                | _ \<Rightarrow> throw e))"

definition mkdirp :: "string \<Rightarrow> unit prog" where
  "mkdirp path =
     try_except (os_makedirs path)
       (\<lambda>e. case e of
               OSError errno \<Rightarrow> if errno \<noteq> EEXIST then throw e else return ()
             | _ \<Rightarrow> throw e)"

definition rmr :: "string \<Rightarrow> unit prog" where
  "rmr path =
     try_except (shutil_rmtree path)
       (\<lambda>e. case e of
               OSError errno \<Rightarrow> if errno \<noteq> ENOENT then throw e else return ()
             | _ \<Rightarrow> throw e)"

section \<open>The Real Deal\<close>

text \<open>
  \<open>setup\<close> (lines 102 to 131), here \<open>setup_fn\<close>. The process environment
  \<open>environ\<close> is a parameter of each of the three operations.
\<close>

definition setup_fn :: "string \<Rightarrow> string \<Rightarrow> dict \<Rightarrow> unit prog" where
  "setup_fn target_dir platform environ =
     seq (mkdirp target_dir)
    (seq (os_chdir target_dir)
    (let depot_tools_dir = path_join target_dir ''depot_tools'' in
     bind (isdir depot_tools_dir) (\<lambda>have_depot_tools.
     seq (if \<not> have_depot_tools then
            seq (print ''Fetching Chromium depot_tools...'')
                (sh ''git clone https://chromium.googlesource.com/chromium/tools/depot_tools.git''
                   None None)
          else return ())
    (bind (lift (setup_environment environ depot_tools_dir)) (\<lambda>env.
     let webrtc_dir = os_path_join target_dir [''webrtc'', platform] in
     bind (isdir webrtc_dir) (\<lambda>have_webrtc.
     seq (if \<not> have_webrtc then
            seq (mkdirp webrtc_dir)
           (seq (os_chdir webrtc_dir)
           (seq (print (''Fetching WebRTC for '' @ platform @ ''...''))
                (sh (''fetch --nohooks webrtc_'' @ platform) (Some env) None)))
          else return ())
    (seq (sh ''gclient sync'' (Some env) None)
         (if platform = ''android'' then
            (let webrtc_dir = os_path_join target_dir [''webrtc'', platform, ''src''] in
             seq (os_chdir webrtc_dir)
                 (sh ''./build/install-build-deps.sh'' None None))
          else return ()))))))))"

text \<open>\<open>sync\<close> (lines 134 to 156).\<close>

definition sync :: "string \<Rightarrow> string \<Rightarrow> dict \<Rightarrow> unit prog" where
  "sync target_dir platform environ =
     (let build_dir = os_path_join target_dir [''build'', platform];
          depot_tools_dir = path_join target_dir ''depot_tools'';
          webrtc_dir = os_path_join target_dir [''webrtc'', platform, ''src'']
      in
      bind (isdir webrtc_dir) (\<lambda>have_webrtc.
      seq (if \<not> have_webrtc then
             seq (print ''WebRTC source not found, did you forget to run --setup?'')
                 (sys_exit 1)
           else return ())
     (bind (lift (prepare_environment environ platform depot_tools_dir webrtc_dir)) (\<lambda>env.
      seq (os_chdir webrtc_dir)
          (sh ''gclient sync -D'' (Some env) None)))))"

text \<open>\<open>build\<close>, lines 185 to 203: run GN for every target.\<close>

definition run_gn :: "string \<Rightarrow> string \<Rightarrow> bool \<Rightarrow> dict \<Rightarrow> unit prog" where
  "run_gn platform build_type debug env =
     (if platform = ''ios'' then
        seq (for_each (\<lambda>item.
               bind (lift (unpack2 (split CHR '':'' item))) (\<lambda>(tenv, arch).
               let gn_out_dir = ''out/'' @ build_type @ ''-ios-'' @ tenv @ ''-'' @ arch in
               bind (lift (percent GN_IOS_ARGS [str_lower_bool debug, arch, tenv])) (\<lambda>gn_args.
               let gn_cmd = ''gn gen '' @ gn_out_dir @ '' '' @ gn_args in
               sh gn_cmd (Some env) None)))
             IOS_BUILD_ARCHS)
            (for_each (\<lambda>arch.
               let gn_out_dir = ''out/'' @ build_type @ ''-macos-'' @ arch in
               bind (lift (percent GN_MACOS_ARGS [str_lower_bool debug, arch])) (\<lambda>gn_args.
               let gn_cmd = ''gn gen '' @ gn_out_dir @ '' '' @ gn_args in
               sh gn_cmd (Some env) None))
             MACOS_BUILD_ARCHS)
      else
        for_each (\<lambda>cpu.
          let gn_out_dir = ''out/'' @ build_type @ ''-'' @ cpu in
          bind (lift (percent GN_ANDROID_ARGS [str_lower_bool debug, cpu])) (\<lambda>gn_args.
          let gn_cmd = ''gn gen '' @ gn_out_dir @ '' '' @ gn_args in
          sh gn_cmd (Some env) None))
        ANDROID_BUILD_CPUS)"

text \<open>\<open>build\<close>, lines 205 to 220: build every target with Ninja.\<close>

definition build_with_ninja :: "string \<Rightarrow> string \<Rightarrow> dict \<Rightarrow> unit prog" where
  "build_with_ninja platform build_type env =
     (if platform = ''ios'' then
        seq (for_each (\<lambda>item.
               bind (lift (unpack2 (split CHR '':'' item))) (\<lambda>(tenv, arch).
               let gn_out_dir = ''out/'' @ build_type @ ''-ios-'' @ tenv @ ''-'' @ arch;
                   ninja_cmd = ''ninja -C '' @ gn_out_dir @ '' framework_objc'' in
               sh ninja_cmd (Some env) None))
             IOS_BUILD_ARCHS)
            (for_each (\<lambda>arch.
               let gn_out_dir = ''out/'' @ build_type @ ''-macos-'' @ arch;
                   ninja_cmd = ''ninja -C '' @ gn_out_dir @ '' mac_framework_objc'' in
               sh ninja_cmd (Some env) None)
             MACOS_BUILD_ARCHS)
      else
        for_each (\<lambda>cpu.
          let gn_out_dir = ''out/'' @ build_type @ ''-'' @ cpu;
              ninja_cmd = ''ninja -C '' @ gn_out_dir @ '' libwebrtc libjingle_peerconnection_so'' in
          sh ninja_cmd (Some env) None)
        ANDROID_BUILD_CPUS)"

text \<open>
  \<open>build\<close>, lines 226 to 291: copy the build artifacts to the build directory. The two
  loops that only extend \<open>xcodebuild_cmd\<close> over \<open>MACOS_BUILD_ARCHS\<close> are folds.
\<close>

definition add_macos_frameworks :: "string \<Rightarrow> string \<Rightarrow> string" where
  "add_macos_frameworks build_type xcodebuild_cmd =
     foldl (\<lambda>xcodebuild_cmd arch.
              let gn_out_dir = ''out/'' @ build_type @ ''-macos-'' @ arch in
              xcodebuild_cmd @ '' -framework '' @ path_join gn_out_dir ''WebRTC.framework'')
       xcodebuild_cmd MACOS_BUILD_ARCHS"

definition copy_build_artifacts :: "string \<Rightarrow> string \<Rightarrow> string \<Rightarrow> unit prog" where
  "copy_build_artifacts platform build_type build_dir =
     (if platform = ''ios'' then
        (let simulators = simulators_of IOS_BUILD_ARCHS in
         bind (lift (index0 simulators)) (\<lambda>simulator0.
         bind (lift (unpack2 (split CHR '':'' simulator0))) (\<lambda>(tenv, arch).
         let gn_out_dir = ''out/'' @ build_type @ ''-ios-'' @ tenv @ ''-'' @ arch in
         seq (shutil_copytree (path_join gn_out_dir ''WebRTC.framework'')
                              (path_join gn_out_dir ''fat-WebRTC.framework''))
        (let out_lib_path = os_path_join gn_out_dir [''fat-WebRTC.framework'', ''WebRTC''] in
         bind (fold_each (\<lambda>item slice_paths.
                 bind (lift (unpack2 (split CHR '':'' item))) (\<lambda>(tenv, arch).
                 let lib_path = os_path_join (''out/'' @ build_type @ ''-ios-'' @ tenv @ ''-'' @ arch)
                                  [''WebRTC.framework'', ''WebRTC''] in
                 return (slice_paths @ [lib_path])))
               simulators []) (\<lambda>slice_paths.
         seq (sh (''lipo '' @ join '' '' slice_paths @ '' -create -output '' @ out_lib_path)
                None None)
        (let orig_framework_path = path_join gn_out_dir ''WebRTC.framework'';
             bak_framework_path = path_join gn_out_dir ''bak-WebRTC.framework'';
             fat_framework_path = path_join gn_out_dir ''fat-WebRTC.framework'' in
         seq (shutil_move orig_framework_path bak_framework_path)
        (seq (shutil_move fat_framework_path orig_framework_path)
        (bind (lift (index0 simulators)) (\<lambda>simulator0.
         let IOS_BUILD_ARCHS' =
               filter (\<lambda>item. \<not> startswith item ''simulator'') IOS_BUILD_ARCHS @ [simulator0];
             xcframework_path = path_join build_dir ''WebRTC.xcframework'';
             xcodebuild_cmd = ''xcodebuild -create-xcframework -output '' @ xcframework_path in
         bind (fold_each (\<lambda>item xcodebuild_cmd.
                 bind (lift (unpack2 (split CHR '':'' item))) (\<lambda>(tenv, arch).
                 let gn_out_dir = ''out/'' @ build_type @ ''-ios-'' @ tenv @ ''-'' @ arch in
                 return (xcodebuild_cmd @ '' -framework ''
                           @ path_join gn_out_dir ''WebRTC.framework'')))
               IOS_BUILD_ARCHS' xcodebuild_cmd) (\<lambda>xcodebuild_cmd.
         let xcodebuild_cmd = add_macos_frameworks build_type xcodebuild_cmd in
         seq (sh xcodebuild_cmd None None)
        (seq (sh ''tar zcf WebRTC.xcframework-bitcode.tgz WebRTC.xcframework'' None (Some build_dir))
        (seq (rmr xcframework_path)
        (let xcodebuild_cmd = ''xcodebuild -create-xcframework -output '' @ xcframework_path in
         bind (fold_each (\<lambda>item xcodebuild_cmd.
                 bind (lift (unpack2 (split CHR '':'' item))) (\<lambda>(tenv, arch).
                 let gn_out_dir = ''out/'' @ build_type @ ''-ios-'' @ tenv @ ''-'' @ arch;
                     xcodebuild_cmd = xcodebuild_cmd @ '' -framework ''
                                        @ path_join gn_out_dir ''WebRTC.framework'';
                     framework_path = os_path_join gn_out_dir [''WebRTC.framework'', ''WebRTC''] in
                 seq (sh (''xcrun bitcode_strip -r '' @ framework_path @ '' -o '' @ framework_path)
                        None None)
                     (return xcodebuild_cmd)))
               IOS_BUILD_ARCHS' xcodebuild_cmd) (\<lambda>xcodebuild_cmd.
         let xcodebuild_cmd = add_macos_frameworks build_type xcodebuild_cmd in
         seq (sh xcodebuild_cmd None None)
        (seq (sh ''tar zcf WebRTC.xcframework.tgz WebRTC.xcframework'' None (Some build_dir))
             (rmr xcframework_path))))))))))))))))
      else
        bind (lift (index0 ANDROID_BUILD_CPUS)) (\<lambda>cpu0.
        let gn_out_dir = ''out/'' @ build_type @ ''-'' @ cpu0 in
        seq (shutil_copy (path_join gn_out_dir ''lib.java/sdk/android/libwebrtc.jar'') build_dir)
       (seq (for_each (\<lambda>cpu.
               bind (lift (dict_get ANDROID_CPU_ABI_MAP cpu)) (\<lambda>abi.
               let lib_dir = os_path_join build_dir [''lib'', abi] in
               seq (mkdirp lib_dir)
              (let gn_out_dir = ''out/'' @ build_type @ ''-'' @ cpu in
               shutil_copy (path_join gn_out_dir ''libjingle_peerconnection_so.so'') lib_dir)))
             ANDROID_BUILD_CPUS)
       (seq (sh ''jar cvfM libjingle_peerconnection.so.jar lib'' None (Some build_dir))
       (seq (rmr (path_join build_dir ''lib''))
            (sh ''tar zcf android-webrtc.tgz *.jar'' None (Some build_dir)))))))"

text \<open>\<open>build\<close> (lines 159 to 291).\<close>

definition build :: "string \<Rightarrow> string \<Rightarrow> bool \<Rightarrow> dict \<Rightarrow> unit prog" where
  "build target_dir platform debug environ =
     (let build_dir = os_path_join target_dir [''build'', platform];
          build_type = (if debug then ''Debug'' else ''Release'');
          depot_tools_dir = path_join target_dir ''depot_tools'';
          webrtc_dir = os_path_join target_dir [''webrtc'', platform, ''src'']
      in
      bind (isdir webrtc_dir) (\<lambda>have_webrtc.
      seq (if \<not> have_webrtc then
             seq (print ''WebRTC source not found, did you forget to run --setup?'')
                 (sys_exit 1)
           else return ())
     (bind (lift (prepare_environment environ platform depot_tools_dir webrtc_dir)) (\<lambda>env.
      seq (os_chdir webrtc_dir)
     (seq (rmr ''out'')
     (seq (run_gn platform build_type debug env)
     (seq (build_with_ninja platform build_type env)
     (seq (rmr build_dir)
     (seq (mkdirp build_dir)
          (copy_build_artifacts platform build_type build_dir))))))))))"

text \<open>
  The main block (lines 294 to 342), after \<open>parser.parse_args()\<close>: \<open>args\<close> holds the
  parsed command line. \<open>os.path.abspath\<close> is left to the caller as \<open>abspath\<close>. Falling
  off the end returns normally.
\<close>

record args =
  args_dir :: string
  args_setup :: bool
  args_build :: bool
  args_sync :: bool
  args_ios :: bool
  args_android :: bool
  args_debug :: bool

definition main_fn :: "(string \<Rightarrow> string) \<Rightarrow> args \<Rightarrow> dict \<Rightarrow> unit prog" where
  "main_fn abspath args environ =
     seq (if \<not> (args_setup args \<or> args_build args \<or> args_sync args) then
            seq (print ''--setup or --build must be specified!'') (sys_exit 1)
          else return ())
    (seq (if args_setup args \<and> args_build args then
            seq (print ''--setup and --build cannot be specified at the same time!'') (sys_exit 1)
          else return ())
    (seq (if \<not> (args_ios args \<or> args_android args) then
            seq (print ''--ios or --android must be specified!'') (sys_exit 1)
          else return ())
    (seq (if args_ios args \<and> args_android args then
            seq (print ''--ios and --android cannot be specified at the same time!'') (sys_exit 1)
          else return ())
    (bind (isdir (args_dir args)) (\<lambda>dir_exists.
     seq (if \<not> dir_exists then
            seq (print ''The specified directory does not exist!'') (sys_exit 1)
          else return ())
    (let target_dir = abspath (path_join (args_dir args) ''build_webrtc'');
         platform = (if args_ios args then ''ios'' else ''android'') in
     seq (if args_setup args then
            seq (setup_fn target_dir platform environ)
           (seq (print (''WebRTC setup for '' @ platform @ '' completed in '' @ target_dir))
                (sys_exit 0))
          else return ())
    (seq (if args_sync args then
            seq (sync target_dir platform environ)
           (seq (print (''WebRTC sync for '' @ platform @ '' completed in '' @ target_dir))
                (sys_exit 0))
          else return ())
         (if args_build args then
            seq (build target_dir platform (args_debug args) environ)
           (seq (print (''WebRTC build for '' @ platform @ '' completed in '' @ target_dir))
                (sys_exit 0))
          else return ()))))))))"

text \<open>
  The exit status of the process: \<open>sys.exit(c)\<close> ends it with the low eight bits of
  \<open>c\<close>, any other uncaught exception with a traceback and status 1, a normal return with 0.
\<close>

definition exit_status :: "exn + unit \<Rightarrow> int" where
  "exit_status r =
     (case r of
        Inr _ \<Rightarrow> 0
      | Inl (SystemExit c) \<Rightarrow> c mod 256
      | Inl _ \<Rightarrow> 1)"

section \<open>Observations used to state the properties\<close>

text \<open>
  The flags of a composed \<open>--args='...'\<close> string: what stands between the quotes, cut at
  the blanks that \<open>build_gn_args\<close> joined the flags with.
\<close>

definition gn_flags :: "string \<Rightarrow> string list" where
  "gn_flags gn_args = split CHR '' '' (butlast (drop 8 gn_args))"

definition flag_count :: "exn + string \<Rightarrow> nat option" where
  "flag_count r = (case r of Inl _ \<Rightarrow> None | Inr gn_args \<Rightarrow> Some (length (gn_flags gn_args)))"

section \<open>Specification-side definitions\<close>

subsection \<open>Failed commands\<close>

text \<open>
  \<open>failed_at w l i c\<close>: the event at position \<open>i\<close> of the log \<open>l\<close> is an external
  command, and the world made it end with the non-zero return code \<open>c\<close>.
\<close>

definition failed_at :: "world \<Rightarrow> event list \<Rightarrow> nat \<Rightarrow> int \<Rightarrow> bool" where
  "failed_at w l i c =
     (i < length l \<and> c \<noteq> 0 \<and>
      (case l ! i of
         CheckCall cmd env cwd \<Rightarrow> check_call_result w (take i l) cmd env cwd = Returncode c
       | _ \<Rightarrow> False))"

text \<open>
  A program is fail-fast when, started on a log without a failed command, it only extends
  the log, and a command that failed in the extended log is its last event and decides
  the result: \<open>sys.exit\<close> with that return code.
\<close>

definition fail_fast :: "'a prog \<Rightarrow> bool" where
  "fail_fast m =
     (\<forall>w l. (\<forall>i c. \<not> failed_at w l i c) \<longrightarrow>
        (\<exists>es. snd (m w l) = l @ es) \<and>
        (\<forall>i c. failed_at w (snd (m w l)) i c \<longrightarrow>
           fst (m w l) = Inl (SystemExit c) \<and> Suc i = length (snd (m w l))))"

subsection \<open>Interrupted commands\<close>

text \<open>
  The world \<open>forgive w\<close> answers as \<open>w\<close> does, except that a command \<open>w\<close> would
  interrupt ends with return code 0 instead. A program is blind to interrupts when it
  runs in \<open>w\<close> as it runs in \<open>forgive w\<close>.
\<close>

definition forgive :: "world \<Rightarrow> world" where
  "forgive w = w\<lparr>check_call_result :=
     (\<lambda>l cmd env cwd. case check_call_result w l cmd env cwd of
                         Interrupt \<Rightarrow> Returncode 0
                       | r \<Rightarrow> r)\<rparr>"

definition interrupt_blind :: "'a prog \<Rightarrow> bool" where
  "interrupt_blind m = (\<forall>w l. m (forgive w) l = m w l)"

subsection \<open>Targets and plans\<close>

text \<open>
  Specification side of the refinement (sections 3 and 4.1 of the specification): a build
  target is a platform with its architecture and, on iOS, its variant; \<open>outputDirName\<close>
  is the one function from build type and target to the output directory, and
  \<open>planned_targets\<close> the planner's ordered list, read off the script's three lists.
\<close>

datatype target = IosTarget string string | MacosTarget string | AndroidTarget string

fun outputDirName :: "string \<Rightarrow> target \<Rightarrow> string" where
  "outputDirName build_type (IosTarget variant arch) =
     ''out/'' @ build_type @ ''-ios-'' @ variant @ ''-'' @ arch"
| "outputDirName build_type (MacosTarget arch) = ''out/'' @ build_type @ ''-macos-'' @ arch"
| "outputDirName build_type (AndroidTarget cpu) = ''out/'' @ build_type @ ''-'' @ cpu"

definition ios_target_of :: "string \<Rightarrow> target option" where
  "ios_target_of item =
     (case unpack2 (split CHR '':'' item) of
        Inr (variant, arch) \<Rightarrow> Some (IosTarget variant arch)
      | Inl _ \<Rightarrow> None)"

definition planned_targets :: "string \<Rightarrow> target list" where
  "planned_targets platform =
     (if platform = ''ios'' then
        List.map_filter ios_target_of IOS_BUILD_ARCHS @ map MacosTarget MACOS_BUILD_ARCHS
      else map AndroidTarget ANDROID_BUILD_CPUS)"

text \<open>
  A plan is a list of invocations of the script's utilities; \<open>exec\<close> runs one of them,
  \<open>events_of\<close> lists the events it leaves in the log.
\<close>

datatype step =
    StSh string "dict option" "string option"
  | StMkdirp string
  | StRmr string
  | StFs fs_op

fun exec :: "step \<Rightarrow> unit prog" where
  "exec (StSh cmd env cwd) = sh cmd env cwd"
| "exec (StMkdirp path) = mkdirp path"
| "exec (StRmr path) = rmr path"
| "exec (StFs op) = fs_call op"

fun events_of :: "step \<Rightarrow> event list" where
  "events_of (StSh cmd env cwd) = [Print (''Running cmd: '' @ cmd), CheckCall cmd env cwd]"
| "events_of (StMkdirp path) = [FsCall (Makedirs path)]"
| "events_of (StRmr path) = [FsCall (Rmtree path)]"
| "events_of (StFs op) = [FsCall op]"

text \<open>
  The plan of each phase, written with \<open>outputDirName\<close> only: the generator commands,
  the compiler commands, and what the assembly does on each platform. \<open>formatted\<close> is
  the \<open>%\<close> operator where it cannot fail.
\<close>

definition formatted :: "string \<Rightarrow> string list \<Rightarrow> string" where
  "formatted fmt args = (case percent fmt args of Inr s \<Rightarrow> s | Inl _ \<Rightarrow> [])"

fun gn_args_of :: "bool \<Rightarrow> target \<Rightarrow> string" where
  "gn_args_of debug (IosTarget variant arch) =
     formatted GN_IOS_ARGS [str_lower_bool debug, arch, variant]"
| "gn_args_of debug (MacosTarget arch) = formatted GN_MACOS_ARGS [str_lower_bool debug, arch]"
| "gn_args_of debug (AndroidTarget cpu) = formatted GN_ANDROID_ARGS [str_lower_bool debug, cpu]"

fun products_of :: "target \<Rightarrow> string" where
  "products_of (IosTarget variant arch) = ''framework_objc''"
| "products_of (MacosTarget arch) = ''mac_framework_objc''"
| "products_of (AndroidTarget cpu) = ''libwebrtc libjingle_peerconnection_so''"

definition generate_plan :: "string \<Rightarrow> bool \<Rightarrow> dict \<Rightarrow> target list \<Rightarrow> step list" where
  "generate_plan build_type debug env ts =
     map (\<lambda>t. StSh (''gn gen '' @ outputDirName build_type t @ '' '' @ gn_args_of debug t)
                 (Some env) None) ts"

definition compile_plan :: "string \<Rightarrow> dict \<Rightarrow> target list \<Rightarrow> step list" where
  "compile_plan build_type env ts =
     map (\<lambda>t. StSh (''ninja -C '' @ outputDirName build_type t @ '' '' @ products_of t)
                 (Some env) None) ts"

fun abi_of :: "target \<Rightarrow> string" where
  "abi_of (AndroidTarget cpu) = (case dict_get ANDROID_CPU_ABI_MAP cpu of Inr abi \<Rightarrow> abi | Inl _ \<Rightarrow> [])"
| "abi_of _ = []"

definition assemble_android_plan :: "string \<Rightarrow> string \<Rightarrow> target list \<Rightarrow> step list" where
  "assemble_android_plan build_type build_dir ts =
     (case ts of
        [] \<Rightarrow> []
      | first # _ \<Rightarrow>
          [StFs (Copy (path_join (outputDirName build_type first)
                         ''lib.java/sdk/android/libwebrtc.jar'')
                   build_dir)]
          @ concat (map (\<lambda>t. [StMkdirp (os_path_join build_dir [''lib'', abi_of t]),
                               StFs (Copy (path_join (outputDirName build_type t)
                                             ''libjingle_peerconnection_so.so'')
                                       (os_path_join build_dir [''lib'', abi_of t]))]) ts)
          @ [StSh ''jar cvfM libjingle_peerconnection.so.jar lib'' None (Some build_dir),
             StRmr (path_join build_dir ''lib''),
             StSh ''tar zcf android-webrtc.tgz *.jar'' None (Some build_dir)])"

fun is_simulator :: "target \<Rightarrow> bool" where
  "is_simulator (IosTarget variant arch) = (variant = ''simulator'')"
| "is_simulator _ = False"

fun is_device :: "target \<Rightarrow> bool" where
  "is_device (IosTarget variant arch) = (variant \<noteq> ''simulator'')"
| "is_device _ = False"

fun is_desktop :: "target \<Rightarrow> bool" where
  "is_desktop (MacosTarget arch) = True"
| "is_desktop _ = False"

definition framework_of :: "string \<Rightarrow> target \<Rightarrow> string" where
  "framework_of build_type t = path_join (outputDirName build_type t) ''WebRTC.framework''"

definition binary_of :: "string \<Rightarrow> target \<Rightarrow> string" where
  "binary_of build_type t = os_path_join (outputDirName build_type t) [''WebRTC.framework'', ''WebRTC'']"

definition assemble_ios_plan :: "string \<Rightarrow> string \<Rightarrow> target list \<Rightarrow> step list" where
  "assemble_ios_plan build_type build_dir ts =
     (case filter is_simulator ts of
        [] \<Rightarrow> []
      | canonical # _ \<Rightarrow>
          (let simulators = filter is_simulator ts;
               effective = filter is_device ts @ [canonical];
               out = outputDirName build_type canonical;
               xcframework_path = path_join build_dir ''WebRTC.xcframework'';
               xcodebuild_cmd =
                 ''xcodebuild -create-xcframework -output '' @ xcframework_path
                 @ concat (map (\<lambda>t. '' -framework '' @ framework_of build_type t)
                             (effective @ filter is_desktop ts))
           in [StFs (Copytree (path_join out ''WebRTC.framework'')
                        (path_join out ''fat-WebRTC.framework'')),
               StSh (''lipo '' @ join '' '' (map (binary_of build_type) simulators)
                       @ '' -create -output ''
                       @ os_path_join out [''fat-WebRTC.framework'', ''WebRTC''])
                 None None,
               StFs (Move (path_join out ''WebRTC.framework'')
                        (path_join out ''bak-WebRTC.framework'')),
               StFs (Move (path_join out ''fat-WebRTC.framework'')
                        (path_join out ''WebRTC.framework'')),
               StSh xcodebuild_cmd None None,
               StSh ''tar zcf WebRTC.xcframework-bitcode.tgz WebRTC.xcframework'' None
                 (Some build_dir),
               StRmr xcframework_path]
              @ map (\<lambda>t. StSh (''xcrun bitcode_strip -r '' @ binary_of build_type t
                                 @ '' -o '' @ binary_of build_type t) None None)
                  effective
              @ [StSh xcodebuild_cmd None None,
                 StSh ''tar zcf WebRTC.xcframework.tgz WebRTC.xcframework'' None (Some build_dir),
                 StRmr xcframework_path]))"

definition assemble_plan :: "string \<Rightarrow> string \<Rightarrow> string \<Rightarrow> step list" where
  "assemble_plan platform build_type build_dir =
     (if platform = ''ios'' then assemble_ios_plan build_type build_dir (planned_targets platform)
      else assemble_android_plan build_type build_dir (planned_targets platform))"

definition build_plan :: "string \<Rightarrow> string \<Rightarrow> bool \<Rightarrow> dict \<Rightarrow> step list" where
  "build_plan target_dir platform debug env =
     (let build_dir = os_path_join target_dir [''build'', platform];
          build_type = (if debug then ''Debug'' else ''Release'');
          webrtc_dir = os_path_join target_dir [''webrtc'', platform, ''src''];
          ts = planned_targets platform
      in [StFs (Chdir webrtc_dir), StRmr ''out'']
         @ generate_plan build_type debug env ts
         @ compile_plan build_type env ts
         @ [StRmr build_dir, StMkdirp build_dir]
         @ assemble_plan platform build_type build_dir)"

text \<open>
  The exceptions that come from the outside world: \<open>sys.exit\<close> after a failed command
  and \<open>OSError\<close>.
\<close>

definition effect_exn :: "exn \<Rightarrow> bool" where
  "effect_exn x = (case x of SystemExit _ \<Rightarrow> True | OSError _ \<Rightarrow> True | _ \<Rightarrow> False)"

subsection \<open>Observers of the log\<close>

text \<open>
  The bitcode-strip command and the command that makes the bitcode-preserving archive;
  \<open>archive_first es\<close> reads \<open>es\<close> from the front and meets that archive before any
  strip command.
\<close>

definition is_strip :: "event \<Rightarrow> bool" where
  "is_strip e = (case e of CheckCall cmd _ _ \<Rightarrow> startswith cmd ''xcrun bitcode_strip'' | _ \<Rightarrow> False)"

definition is_bitcode_archive :: "event \<Rightarrow> bool" where
  "is_bitcode_archive e =
     (case e of
        CheckCall cmd _ _ \<Rightarrow> cmd = ''tar zcf WebRTC.xcframework-bitcode.tgz WebRTC.xcframework''
      | _ \<Rightarrow> False)"

fun archive_first :: "event list \<Rightarrow> bool" where
  "archive_first [] = True"
| "archive_first (e # es) = (is_bitcode_archive e \<or> (\<not> is_strip e \<and> archive_first es))"

text \<open>
  \<open>answer_at w l k\<close>: what the world answered to the command at position \<open>k\<close> of the
  log \<open>l\<close>, if there is a command. An answer lets the run go on when it is return code 0
  or an interrupt. A log is clean when every answer in it let the run go on, almost clean
  when every answer but that of its last event did.
\<close>

definition answer_at :: "world \<Rightarrow> event list \<Rightarrow> nat \<Rightarrow> call_result option" where
  "answer_at w l k =
     (if k < length l then
        (case l ! k of
           CheckCall cmd env cwd \<Rightarrow> Some (check_call_result w (take k l) cmd env cwd)
         | _ \<Rightarrow> None)
      else None)"

definition went_on :: "call_result option \<Rightarrow> bool" where
  "went_on a = (a = None \<or> a = Some (Returncode 0) \<or> a = Some Interrupt)"

definition clean_upto :: "world \<Rightarrow> event list \<Rightarrow> bool" where
  "clean_upto w l = (\<forall>k<length l. went_on (answer_at w l k))"

definition almost_clean :: "world \<Rightarrow> event list \<Rightarrow> bool" where
  "almost_clean w l = (\<forall>k. Suc k < length l \<longrightarrow> went_on (answer_at w l k))"

text \<open>
  Either archive of the bundle, the jar packaging command; \<open>followed_by P b es\<close>: in
  \<open>es\<close>, every event that satisfies \<open>P\<close> has \<open>b\<close> as its successor.
\<close>

definition is_archive_cmd :: "event \<Rightarrow> bool" where
  "is_archive_cmd e =
     (case e of CheckCall cmd _ _ \<Rightarrow> startswith cmd ''tar zcf WebRTC.xcframework'' | _ \<Rightarrow> False)"



subsection \<open>Worlds and command lines of concrete runs\<close>

text \<open>
  \<open>rigged n r\<close> answers \<open>r\<close> to the command issued when the log holds \<open>n\<close> events
  and lets everything else succeed; in \<open>calm\<close> everything succeeds; in
  \<open>no_source_world\<close> no directory exists. \<open>android_build_args\<close> is the command line
  \<open>/w --build --android\<close>.
\<close>

definition rigged :: "nat \<Rightarrow> call_result \<Rightarrow> world" where
  "rigged n r =
     \<lparr>check_call_result = (\<lambda>l cmd env cwd. if length l = n then r else Returncode 0),
      os_error = (\<lambda>l op. None),
      path_isdir = (\<lambda>l path. True)\<rparr>"

definition calm :: world where
  "calm =
     \<lparr>check_call_result = (\<lambda>l cmd env cwd. Returncode 0),
      os_error = (\<lambda>l op. None),
      path_isdir = (\<lambda>l path. True)\<rparr>"

definition no_source_world :: world where
  "no_source_world =
     \<lparr>check_call_result = (\<lambda>l cmd env cwd. Returncode 0),
      os_error = (\<lambda>l op. None),
      path_isdir = (\<lambda>l path. False)\<rparr>"

definition android_build_args :: args where
  "android_build_args =
     \<lparr>args_dir = ''/w'', args_setup = False, args_build = True, args_sync = False,
      args_ios = False, args_android = True, args_debug = False\<rparr>"

section \<open>Properties\<close>

subsection \<open>Configuration flags\<close>

lemma length_split: "length (split c s) = Suc (length (filter (\<lambda>x. x = c) s))"
  by (induction s) (auto split: list.splits)

lemma no_space_filter: "CHR '' '' \<notin> set s \<Longrightarrow> filter (\<lambda>x. x = CHR '' '') s = []"
  by (induction s) auto

lemma percent_android:
  "percent GN_ANDROID_ARGS [d, cpu] =
     Inr (''--args='' @ [CHR 0x27]
          @ ''treat_warnings_as_errors=false is_component_build=false rtc_libvpx_build_vp9=true is_debug=''
          @ d @ '' target_cpu=\"'' @ cpu @ ''\" target_os=\"android\"'' @ [CHR 0x27])"
  by (simp add: GN_ANDROID_ARGS_def build_gn_args_def GN_COMMON_ARGS_def GN_ANDROID_ARGS_list_def)

lemma percent_macos:
  "percent GN_MACOS_ARGS [d, arch] =
     Inr (''--args='' @ [CHR 0x27]
          @ ''treat_warnings_as_errors=false is_component_build=false rtc_libvpx_build_vp9=true is_debug=''
          @ d @ '' target_cpu=\"'' @ arch
          @ ''\" enable_dsyms=true rtc_include_tests=false target_os=\"mac\" use_xcode_clang=false''
          @ [CHR 0x27])"
  by (simp add: GN_MACOS_ARGS_def build_gn_args_def GN_COMMON_ARGS_def GN_MACOS_ARGS_list_def
      GN_APPLE_COMMON_def)

lemma percent_ios:
  "percent GN_IOS_ARGS [d, arch, tenv] =
     Inr (''--args='' @ [CHR 0x27]
          @ ''treat_warnings_as_errors=false is_component_build=false rtc_libvpx_build_vp9=true is_debug=''
          @ d @ '' target_cpu=\"'' @ arch
          @ ''\" enable_dsyms=true rtc_include_tests=false enable_ios_bitcode=true ios_deployment_target=\"11.0\" ios_enable_code_signing=false target_os=\"ios\" use_xcode_clang=true target_environment=\"''
          @ tenv @ ''\"'' @ [CHR 0x27])"
  by (simp add: GN_IOS_ARGS_def build_gn_args_def GN_COMMON_ARGS_def GN_IOS_ARGS_list_def
      GN_APPLE_COMMON_def)

text \<open>
  C7, as the claim states it, fails: the substituted values fill the placeholders
  \<open>is_debug=%s\<close> and \<open>target_cpu="%s"\<close>, which are entries of the tables already, so
  they add nothing to the length. For Android, debug, \<open>arm\<close>: six flags, not 5 + 1 + 2.
\<close>

theorem flag_count_plus_substituted_counterexample:
  "flag_count (percent GN_ANDROID_ARGS [str_lower_bool True, ''arm''])
     \<noteq> Some (length GN_COMMON_ARGS + length GN_ANDROID_ARGS_list + 2)"
  by (simp del: split.simps
      add: flag_count_def percent_android gn_flags_def length_split str_lower_bool_def
        GN_COMMON_ARGS_def GN_ANDROID_ARGS_list_def butlast_append)

text \<open>
  C7, amended: for every debug flag, architecture and variant (written without blanks, as
  a flag value must be), the composed flag string holds exactly as many flags as the
  contributing tables have entries: common, Apple and iOS tables for an iOS target,
  common, Apple and macOS tables for the desktop target, common and Android tables for
  an Android target. No layer is dropped, and substitution adds no flag.
\<close>

theorem flag_count_is_sum_of_tables:
  assumes "CHR '' '' \<notin> set arch" and "CHR '' '' \<notin> set tenv"
  shows "flag_count (percent GN_IOS_ARGS [str_lower_bool debug, arch, tenv]) =
           Some (length GN_COMMON_ARGS + length GN_APPLE_COMMON + length GN_IOS_ARGS_list)
       \<and> flag_count (percent GN_MACOS_ARGS [str_lower_bool debug, arch]) =
           Some (length GN_COMMON_ARGS + length GN_APPLE_COMMON + length GN_MACOS_ARGS_list)
       \<and> flag_count (percent GN_ANDROID_ARGS [str_lower_bool debug, arch]) =
           Some (length GN_COMMON_ARGS + length GN_ANDROID_ARGS_list)"
  using assms
  by (simp del: split.simps
      add: flag_count_def percent_android percent_macos percent_ios gn_flags_def length_split
        str_lower_bool_def GN_COMMON_ARGS_def GN_ANDROID_ARGS_list_def GN_MACOS_ARGS_list_def
        GN_IOS_ARGS_list_def GN_APPLE_COMMON_def butlast_append no_space_filter)

theorem flag_count_is_sum_of_tables_witness:
  "CHR '' '' \<notin> set ''arm64'' \<and> CHR '' '' \<notin> set ''simulator''
   \<and> flag_count (percent GN_IOS_ARGS [str_lower_bool False, ''arm64'', ''simulator'']) = Some 13
   \<and> flag_count (percent GN_MACOS_ARGS [str_lower_bool False, ''arm64'']) = Some 9
   \<and> flag_count (percent GN_ANDROID_ARGS [str_lower_bool False, ''arm64'']) = Some 6"
  using flag_count_is_sum_of_tables [of "''arm64''" "''simulator''" False]
  by (simp add: GN_COMMON_ARGS_def GN_ANDROID_ARGS_list_def GN_MACOS_ARGS_list_def
      GN_IOS_ARGS_list_def GN_APPLE_COMMON_def)

subsection \<open>The environment of the external tools\<close>

lemma map_of_dict_set: "map_of (dict_set k v d) = (map_of d)(k \<mapsto> v)"
  by (induction d) (auto simp: fun_eq_iff)

text \<open>
  C8, as the claim states it, fails: the inherited search path comes first and the
  toolchain directory is put after it.
\<close>

theorem search_path_prepended_counterexample:
  "prepare_environment [(''PATH'', ''/usr/bin'')] ''ios'' ''/t/depot_tools'' ''/t/webrtc/ios/src''
     = Inr [(''PATH'', ''/usr/bin:/t/depot_tools'')]
   \<and> \<not> startswith ''/usr/bin:/t/depot_tools'' ''/t/depot_tools''
   \<and> startswith ''/usr/bin:/t/depot_tools'' ''/usr/bin''"
  by (simp add: prepare_environment_def dict_get_def startswith_def)

text \<open>
  C8, amended: for every base environment that defines \<open>PATH\<close> and every source tree
  root, the composed search path is the inherited search path followed by the toolchain
  directory; for Android the SDK platform-tools directory, the SDK tools directory and the
  build-helper directory derived from the source tree root follow in that order, and for
  any other platform nothing else is added. Every other variable is kept. The environment
  of \<open>setup\<close> likewise has the toolchain directory appended.
\<close>

theorem search_path_appended:
  assumes "dict_get environ ''PATH'' = Inr p"
  shows "\<exists>env. prepare_environment environ platform depot_tools_dir webrtc_dir = Inr env
           \<and> dict_get env ''PATH'' =
               Inr (if platform = ''android'' then
                      p @ '':'' @ depot_tools_dir
                        @ '':'' @ path_join (path_join webrtc_dir ''third_party/android_sdk/public'')
                                    ''platform-tools''
                        @ '':'' @ path_join (path_join webrtc_dir ''third_party/android_sdk/public'')
                                    ''tools''
                        @ '':'' @ path_join webrtc_dir ''build/android''
                    else p @ '':'' @ depot_tools_dir)
           \<and> (\<forall>k. k \<noteq> ''PATH'' \<longrightarrow> dict_get env k = dict_get environ k)
           \<and> (\<exists>env'. setup_environment environ depot_tools_dir = Inr env'
                 \<and> dict_get env' ''PATH'' = Inr (p @ '':'' @ depot_tools_dir)
                 \<and> (\<forall>k. k \<noteq> ''PATH'' \<longrightarrow> dict_get env' k = dict_get environ k))"
  using assms
  by (auto simp: prepare_environment_def setup_environment_def dict_get_def map_of_dict_set
      Let_def split: option.splits)

theorem search_path_appended_witness:
  "dict_get [(''HOME'', ''/root''), (''PATH'', ''/usr/bin'')] ''PATH'' = Inr ''/usr/bin''
   \<and> (\<exists>env. prepare_environment [(''HOME'', ''/root''), (''PATH'', ''/usr/bin'')] ''android''
               ''/t/depot_tools'' ''/t/webrtc/android/src'' = Inr env
         \<and> dict_get env ''PATH'' =
             Inr ''/usr/bin:/t/depot_tools:/t/webrtc/android/src/third_party/android_sdk/public/platform-tools:/t/webrtc/android/src/third_party/android_sdk/public/tools:/t/webrtc/android/src/build/android''
         \<and> dict_get env ''HOME'' = Inr ''/root'')"
proof -
  have h: "dict_get [(''HOME'', ''/root''), (''PATH'', ''/usr/bin'')] ''PATH'' = Inr ''/usr/bin''"
    by (simp add: dict_get_def)
  from search_path_appended [OF h, of "''android''" "''/t/depot_tools''" "''/t/webrtc/android/src''"]
  obtain env where
    e: "prepare_environment [(''HOME'', ''/root''), (''PATH'', ''/usr/bin'')] ''android''
          ''/t/depot_tools'' ''/t/webrtc/android/src'' = Inr env"
    and p: "dict_get env ''PATH'' =
          Inr (''/usr/bin'' @ '':'' @ ''/t/depot_tools''
                 @ '':'' @ path_join (path_join ''/t/webrtc/android/src'' ''third_party/android_sdk/public'')
                             ''platform-tools''
                 @ '':'' @ path_join (path_join ''/t/webrtc/android/src'' ''third_party/android_sdk/public'')
                             ''tools''
                 @ '':'' @ path_join ''/t/webrtc/android/src'' ''build/android'')"
    and k: "\<forall>k. k \<noteq> ''PATH'' \<longrightarrow>
              dict_get env k = dict_get [(''HOME'', ''/root''), (''PATH'', ''/usr/bin'')] k"
    by auto
  from k have "dict_get env ''HOME'' = Inr ''/root''"
    by (simp add: dict_get_def)
  with h e p show ?thesis
    by (simp add: path_join_def startswith_def endswith_def)
qed

subsection \<open>The canonical simulator target\<close>

text \<open>
  C6, as the claim states it, fails: the selection is by position. Reordering the
  script's own list so that the other simulator comes first keeps the set of targets and
  changes the selection.
\<close>

theorem canonical_simulator_permutation_counterexample:
  "set [''device:arm64'', ''simulator:x64'', ''simulator:arm64''] = set IOS_BUILD_ARCHS
   \<and> canonical_simulator [''device:arm64'', ''simulator:x64'', ''simulator:arm64''] = Inr ''simulator:x64''
   \<and> canonical_simulator IOS_BUILD_ARCHS = Inr ''simulator:arm64''"
  by (auto simp add: canonical_simulator_def simulators_of_def index0_def IOS_BUILD_ARCHS_def
      startswith_def)

text \<open>
  C6, amended: the canonical simulator target is the first simulator entry of the target
  list in list order. Whatever stands before it (no simulator entry) and after it, the
  merge selects that entry; so the selection is the same for every reordering of the list
  that keeps the same simulator entry before the other simulator entries.
\<close>

theorem canonical_simulator_is_first:
  assumes "\<forall>x \<in> set pre. \<not> startswith x ''simulator''" and "startswith s ''simulator''"
  shows "canonical_simulator (pre @ s # rest) = Inr s"
  using assms
  by (simp add: canonical_simulator_def simulators_of_def index0_def filter_empty_conv[THEN iffD2])

theorem canonical_simulator_is_first_witness:
  "\<not> startswith ''device:arm64'' ''simulator''
   \<and> startswith ''simulator:arm64'' ''simulator''
   \<and> canonical_simulator ([''device:arm64''] @ ''simulator:arm64'' # [''simulator:x64''])
       = Inr ''simulator:arm64''"
proof -
  have a: "\<forall>x \<in> set [''device:arm64'']. \<not> startswith x ''simulator''"
    by (simp add: startswith_def)
  have b: "startswith ''simulator:arm64'' ''simulator''"
    by (simp add: startswith_def)
  from canonical_simulator_is_first [OF a b, of "[''simulator:x64'']"] a b
  show ?thesis by simp
qed

section \<open>Properties of the runs\<close>

subsection \<open>A failed command ends the run\<close>

lemma failed_at_prefix: "i < length l \<Longrightarrow> failed_at w (l @ es) i c = failed_at w l i c"
  by (auto simp add: failed_at_def nth_append split: event.splits)

lemma failed_at_snoc:
  "failed_at w (l @ [e]) i c =
     (failed_at w l i c \<or>
      (i = length l \<and> c \<noteq> 0 \<and>
       (case e of CheckCall cmd env cwd \<Rightarrow> check_call_result w l cmd env cwd = Returncode c
        | _ \<Rightarrow> False)))"
  by (cases "i < length l") (auto simp: failed_at_def nth_append less_Suc_eq split: event.splits)

lemma fail_fast_return: "fail_fast (return x)"
  by (simp add: fail_fast_def return_def)

lemma fail_fast_throw: "fail_fast (throw e)"
  by (simp add: fail_fast_def throw_def)

lemma fail_fast_lift: "fail_fast (lift r)"
  by (cases r) (simp_all add: lift_def fail_fast_return fail_fast_throw)

lemma fail_fast_sys_exit: "fail_fast (sys_exit c)"
  by (simp add: sys_exit_def fail_fast_throw)

lemma fail_fast_isdir: "fail_fast (isdir p)"
  by (simp add: fail_fast_def isdir_def)

lemma fail_fast_bind:
  assumes m: "fail_fast m" and f: "\<And>x. fail_fast (f x)"
  shows "fail_fast (bind m f)"
  unfolding fail_fast_def
proof (intro allI impI)
  fix w l
  assume clean: "\<forall>i c. \<not> failed_at w l i c"
  from m clean obtain es where es: "snd (m w l) = l @ es"
    and mm: "\<forall>i c. failed_at w (snd (m w l)) i c \<longrightarrow>
           fst (m w l) = Inl (SystemExit c) \<and> Suc i = length (snd (m w l))"
    unfolding fail_fast_def by blast
  show "(\<exists>es. snd (bind m f w l) = l @ es) \<and>
        (\<forall>i c. failed_at w (snd (bind m f w l)) i c \<longrightarrow>
           fst (bind m f w l) = Inl (SystemExit c) \<and> Suc i = length (snd (bind m f w l)))"
  proof (cases "fst (m w l)")
    case (Inl e)
    then have "fst (bind m f w l) = Inl e \<and> snd (bind m f w l) = snd (m w l)"
      by (cases "m w l") (simp add: bind_def)
    with Inl es mm show ?thesis by simp
  next
    case (Inr x)
    then have b: "bind m f w l = f x w (snd (m w l))"
      by (cases "m w l") (simp add: bind_def)
    from Inr mm have clean': "\<forall>i c. \<not> failed_at w (snd (m w l)) i c" by auto
    from f[of x] clean' obtain es' where es': "snd (f x w (snd (m w l))) = snd (m w l) @ es'"
      and ff: "\<forall>i c. failed_at w (snd (f x w (snd (m w l)))) i c \<longrightarrow>
           fst (f x w (snd (m w l))) = Inl (SystemExit c) \<and> Suc i = length (snd (f x w (snd (m w l))))"
      unfolding fail_fast_def by blast
    from es es' ff b show ?thesis by simp
  qed
qed

lemma fail_fast_seq: "fail_fast m \<Longrightarrow> fail_fast n \<Longrightarrow> fail_fast (seq m n)"
  by (simp add: seq_def fail_fast_bind)

lemma fail_fast_for_each: "(\<And>x. fail_fast (body x)) \<Longrightarrow> fail_fast (for_each body xs)"
  by (induction xs) (simp_all add: fail_fast_return fail_fast_seq)

lemma fail_fast_fold_each: "(\<And>x a. fail_fast (body x a)) \<Longrightarrow> fail_fast (fold_each body xs acc)"
  by (induction xs arbitrary: acc) (simp_all add: fail_fast_return fail_fast_bind)

lemma fail_fast_if: "fail_fast a \<Longrightarrow> fail_fast b \<Longrightarrow> fail_fast (if c then a else b)"
  by simp

lemma fail_fast_case_prod: "(\<And>a b. fail_fast (f a b)) \<Longrightarrow> fail_fast (case_prod f x)"
  by (cases x) simp

lemma fail_fast_print: "fail_fast (print s)"
  by (simp add: fail_fast_def print_def failed_at_snoc)

lemma fail_fast_fs_call: "fail_fast (fs_call op)"
  by (simp add: fail_fast_def fs_call_def failed_at_snoc)

lemma fail_fast_checked_call:
  "fail_fast (try_except (check_call cmd env cwd)
          (\<lambda>e. case e of
                  CalledProcessError returncode \<Rightarrow> sys_exit returncode
                | KeyboardInterrupt \<Rightarrow> return ()
                | _ \<Rightarrow> throw e))"
  by (auto simp add: fail_fast_def try_except_def check_call_def
      sys_exit_def throw_def return_def failed_at_snoc split: call_result.splits)

lemma fail_fast_sh: "fail_fast (sh cmd env cwd)"
  unfolding sh_def by (intro fail_fast_seq fail_fast_print fail_fast_checked_call)

lemma fail_fast_mkdirp: "fail_fast (mkdirp p)"
  by (auto simp add: fail_fast_def mkdirp_def os_makedirs_def fs_call_def try_except_def
      throw_def return_def failed_at_snoc split: option.splits)

lemma fail_fast_rmr: "fail_fast (rmr p)"
  by (auto simp add: fail_fast_def rmr_def shutil_rmtree_def fs_call_def try_except_def
      throw_def return_def failed_at_snoc split: option.splits)

lemmas fail_fast_intros =
  fail_fast_return fail_fast_throw fail_fast_lift fail_fast_sys_exit fail_fast_isdir
  fail_fast_bind fail_fast_seq fail_fast_for_each fail_fast_fold_each fail_fast_if
  fail_fast_case_prod fail_fast_print fail_fast_fs_call fail_fast_sh fail_fast_mkdirp fail_fast_rmr

lemma fail_fast_sync: "fail_fast (sync target_dir platform environ)"
  unfolding sync_def Let_def os_chdir_def
  by (intro fail_fast_intros)

lemma fail_fast_setup: "fail_fast (setup_fn target_dir platform environ)"
  unfolding setup_fn_def Let_def os_chdir_def
  by (intro fail_fast_intros)

lemma fail_fast_build: "fail_fast (build target_dir platform debug environ)"
  unfolding build_def run_gn_def build_with_ninja_def copy_build_artifacts_def Let_def
    os_chdir_def shutil_copytree_def shutil_move_def shutil_copy_def
  by (intro fail_fast_intros)

lemma fail_fast_main: "fail_fast (main_fn abspath args environ)"
  unfolding main_fn_def Let_def
  by (intro fail_fast_intros fail_fast_setup fail_fast_sync fail_fast_build)

text \<open>
  C1. In every mode (setup, sync, build) and every world: if a command issued by the run
  ended with a non-zero return code \<open>c\<close>, then the run ended with \<open>sys.exit(c)\<close>, that
  command is the last event of the log (no later command of that phase or of a later
  phase was issued), and, for a status a child can exit with (\<open>0 < c < 256\<close>), the
  exit status of the process is \<open>c\<close>.
\<close>

theorem nonzero_exit_stops_run:
  assumes "failed_at w (snd (main_fn abspath args environ w [])) i c"
  shows "fst (main_fn abspath args environ w []) = Inl (SystemExit c)
       \<and> Suc i = length (snd (main_fn abspath args environ w []))
       \<and> (0 < c \<and> c < 256 \<longrightarrow> exit_status (fst (main_fn abspath args environ w [])) = c)"
proof -
  have clean: "\<forall>i c. \<not> failed_at w [] i c"
    by (simp add: failed_at_def)
  from fail_fast_main [of abspath args environ] clean assms
  have r: "fst (main_fn abspath args environ w []) = Inl (SystemExit c)"
    and n: "Suc i = length (snd (main_fn abspath args environ w []))"
    unfolding fail_fast_def by blast+
  from r n show ?thesis
    by (simp add: exit_status_def)
qed

subsection \<open>The missing source tree\<close>

text \<open>
  C5. For every platform: when the source tree directory of the platform does not exist,
  \<open>build\<close> and \<open>sync\<close> print the message and end with \<open>sys.exit(1)\<close>, exit status
  1; the message is the only event, so no external tool was invoked.
\<close>

theorem missing_source_tree:
  assumes "\<not> path_isdir w l (os_path_join target_dir [''webrtc'', platform, ''src''])"
  shows "build target_dir platform debug environ w l =
           (Inl (SystemExit 1),
            l @ [Print ''WebRTC source not found, did you forget to run --setup?''])
       \<and> sync target_dir platform environ w l =
           (Inl (SystemExit 1),
            l @ [Print ''WebRTC source not found, did you forget to run --setup?''])
       \<and> exit_status (fst (build target_dir platform debug environ w l)) = 1
       \<and> exit_status (fst (sync target_dir platform environ w l)) = 1"
  using assms
  by (simp add: build_def sync_def Let_def bind_def seq_def isdir_def print_def sys_exit_def
      throw_def exit_status_def)

subsection \<open>An interrupted command\<close>

lemma ib_return: "interrupt_blind (return x)"
  by (simp add: interrupt_blind_def return_def)

lemma ib_throw: "interrupt_blind (throw x)"
  by (simp add: interrupt_blind_def throw_def)

lemma ib_lift: "interrupt_blind (lift r)"
  by (cases r) (simp_all add: lift_def ib_return ib_throw)

lemma ib_sys_exit: "interrupt_blind (sys_exit c)"
  by (simp add: sys_exit_def ib_throw)

lemma ib_isdir: "interrupt_blind (isdir p)"
  by (simp add: interrupt_blind_def isdir_def forgive_def)

lemma ib_print: "interrupt_blind (print s)"
  by (simp add: interrupt_blind_def print_def)

lemma ib_fs_call: "interrupt_blind (fs_call op)"
  by (simp add: interrupt_blind_def fs_call_def forgive_def)

lemma ib_bind: "interrupt_blind m \<Longrightarrow> (\<And>x. interrupt_blind (f x)) \<Longrightarrow> interrupt_blind (bind m f)"
  by (auto simp add: interrupt_blind_def bind_def split: prod.splits sum.splits)

lemma ib_seq: "interrupt_blind m \<Longrightarrow> interrupt_blind n \<Longrightarrow> interrupt_blind (seq m n)"
  by (simp add: seq_def ib_bind)

lemma ib_for_each: "(\<And>x. interrupt_blind (body x)) \<Longrightarrow> interrupt_blind (for_each body xs)"
  by (induction xs) (simp_all add: ib_return ib_seq)

lemma ib_fold_each: "(\<And>x a. interrupt_blind (body x a)) \<Longrightarrow> interrupt_blind (fold_each body xs acc)"
  by (induction xs arbitrary: acc) (simp_all add: ib_return ib_bind)

lemma ib_if: "interrupt_blind a \<Longrightarrow> interrupt_blind b \<Longrightarrow> interrupt_blind (if c then a else b)"
  by simp

lemma ib_case_prod: "(\<And>a b. interrupt_blind (f a b)) \<Longrightarrow> interrupt_blind (case_prod f x)"
  by (cases x) simp

lemma ib_sh: "interrupt_blind (sh cmd env cwd)"
  by (auto simp add: interrupt_blind_def sh_def seq_def bind_def print_def try_except_def check_call_def
      sys_exit_def throw_def return_def forgive_def split: call_result.splits)

lemma ib_mkdirp: "interrupt_blind (mkdirp p)"
  by (auto simp add: interrupt_blind_def mkdirp_def os_makedirs_def fs_call_def try_except_def forgive_def
      throw_def return_def split: option.splits)

lemma ib_rmr: "interrupt_blind (rmr p)"
  by (auto simp add: interrupt_blind_def rmr_def shutil_rmtree_def fs_call_def try_except_def forgive_def
      throw_def return_def split: option.splits)

lemmas ib_intros = ib_return ib_throw ib_lift ib_sys_exit ib_isdir ib_print ib_fs_call ib_bind ib_seq
  ib_for_each ib_fold_each ib_if ib_case_prod ib_sh ib_mkdirp ib_rmr

lemma ib_main: "interrupt_blind (main_fn abspath args environ)"
  unfolding main_fn_def setup_fn_def sync_def build_def run_gn_def build_with_ninja_def
    copy_build_artifacts_def Let_def
    os_chdir_def shutil_copytree_def shutil_move_def shutil_copy_def
  by (intro ib_intros)

lemma sh_interrupted:
  assumes "check_call_result w (l @ [Print (''Running cmd: '' @ cmd)]) cmd env cwd = Interrupt"
  shows "sh cmd env cwd w l = (Inr (), l @ [Print (''Running cmd: '' @ cmd), CheckCall cmd env cwd])"
  using assms
  by (simp add: sh_def seq_def bind_def print_def try_except_def check_call_def return_def)

lemma main_interrupt_blind:
  "main_fn abspath args environ (forgive w) l = main_fn abspath args environ w l"
  using ib_main [of abspath args environ] by (simp add: interrupt_blind_def)

text \<open>
  C4, amended: if an interrupt arrives while \<open>sh\<close> waits on a child command, \<open>sh\<close>
  returns normally, having logged the command; and the whole run is the run of the world
  in which every interrupted command ended with return code 0 instead: it continues with
  the next step, and further commands may be issued.
\<close>

theorem interrupt_swallowed_run_continues:
  "(check_call_result w (l @ [Print (''Running cmd: '' @ cmd)]) cmd env cwd = Interrupt \<longrightarrow>
      sh cmd env cwd w l
        = (Inr (), l @ [Print (''Running cmd: '' @ cmd), CheckCall cmd env cwd]))
   \<and> main_fn abspath args environ w l = main_fn abspath args environ (forgive w) l"
  by (simp add: sh_interrupted main_interrupt_blind)

subsection \<open>The build runs its plan\<close>

lemma bind_return [simp]: "bind (return x) f = f x"
  by (simp add: bind_def return_def)

lemma bind_throw [simp]: "bind (throw e) f = throw e"
  by (simp add: bind_def throw_def)

lemma bind_assoc [simp]: "bind (bind m f) g = bind m (\<lambda>x. bind (f x) g)"
  by (auto simp add: bind_def fun_eq_iff split: prod.splits sum.splits)

lemma bind_return_unit [simp]: "bind m (\<lambda>_. return ()) = (m :: unit prog)"
  by (auto simp add: bind_def return_def fun_eq_iff split: prod.splits sum.splits)

lemma bind_return_right [simp]: "bind m return = m"
  by (auto simp add: bind_def return_def fun_eq_iff split: prod.splits sum.splits)

lemma lift_Inr [simp]: "lift (Inr x) = return x"
  by (simp add: lift_def)

lemma lift_Inl [simp]: "lift (Inl e) = throw e"
  by (simp add: lift_def)

lemma bind_isdir: "bind (isdir p) f w l = f (path_isdir w l p) w l"
  by (simp add: bind_def isdir_def)

lemma run_gn_plan:
  "run_gn platform build_type debug env
     = for_each exec (generate_plan build_type debug env (planned_targets platform))"
  by (simp add: Let_def seq_def run_gn_def planned_targets_def generate_plan_def
      ANDROID_BUILD_CPUS_def IOS_BUILD_ARCHS_def MACOS_BUILD_ARCHS_def
      formatted_def percent_android percent_ios percent_macos ios_target_of_def List.map_filter_def
      del: percent.simps)

lemma build_with_ninja_plan:
  "build_with_ninja platform build_type env
     = for_each exec (compile_plan build_type env (planned_targets platform))"
  by (simp add: Let_def seq_def build_with_ninja_def planned_targets_def compile_plan_def
      ANDROID_BUILD_CPUS_def IOS_BUILD_ARCHS_def MACOS_BUILD_ARCHS_def
      ios_target_of_def List.map_filter_def)

lemma copy_build_artifacts_plan:
  "copy_build_artifacts platform build_type build_dir
     = for_each exec (assemble_plan platform build_type build_dir)"
  by (simp add: Let_def seq_def copy_build_artifacts_def planned_targets_def assemble_plan_def
      assemble_android_plan_def assemble_ios_plan_def framework_of_def binary_of_def
      ANDROID_BUILD_CPUS_def IOS_BUILD_ARCHS_def MACOS_BUILD_ARCHS_def ANDROID_CPU_ABI_MAP_def
      dict_get_def index0_def simulators_of_def startswith_def add_macos_frameworks_def
      ios_target_of_def List.map_filter_def shutil_copy_def shutil_copytree_def shutil_move_def)

lemma for_each_append:
  "for_each body (xs @ ys) = seq (for_each body xs) (for_each body ys)"
  by (induction xs) (simp_all add: seq_def)

lemma build_runs_plan:
  assumes "path_isdir w l (os_path_join target_dir [''webrtc'', platform, ''src''])"
    and "prepare_environment environ platform (path_join target_dir ''depot_tools'')
           (os_path_join target_dir [''webrtc'', platform, ''src'']) = Inr env"
  shows "build target_dir platform debug environ w l
         = for_each exec (build_plan target_dir platform debug env) w l"
  using assms
  by (simp add: build_def build_plan_def Let_def bind_isdir run_gn_plan build_with_ninja_plan
      copy_build_artifacts_plan for_each_append seq_def os_chdir_def)

lemma build_no_source:
  assumes "\<not> path_isdir w l (os_path_join target_dir [''webrtc'', platform, ''src''])"
  shows "build target_dir platform debug environ w l =
           (Inl (SystemExit 1),
            l @ [Print ''WebRTC source not found, did you forget to run --setup?''])"
  using assms
  by (simp add: build_def Let_def bind_def seq_def isdir_def print_def sys_exit_def throw_def)

lemma build_no_path:
  assumes "path_isdir w l (os_path_join target_dir [''webrtc'', platform, ''src''])"
    and "prepare_environment environ platform (path_join target_dir ''depot_tools'')
           (os_path_join target_dir [''webrtc'', platform, ''src'']) = Inl e"
  shows "build target_dir platform debug environ w l = (Inl e, l)"
  using assms
  by (simp add: build_def Let_def bind_isdir seq_def) (simp add: throw_def)

text \<open>
  However a plan ends, the log has grown by the events of the steps run so far; it ends
  normally only after the last step, and otherwise with an exception from outside.
\<close>

lemma exec_log: "snd (exec s w l) = l @ events_of s"
  by (cases s)
    (auto simp add: sh_def mkdirp_def rmr_def fs_call_def os_makedirs_def shutil_rmtree_def
      seq_def bind_def print_def try_except_def check_call_def sys_exit_def throw_def return_def
      split: call_result.splits option.splits)

lemma exec_result: "fst (exec s w l) = Inl x \<Longrightarrow> effect_exn x"
  by (cases s)
    (auto simp add: sh_def mkdirp_def rmr_def fs_call_def os_makedirs_def shutil_rmtree_def
      seq_def bind_def print_def try_except_def check_call_def sys_exit_def throw_def return_def
      effect_exn_def
      split: call_result.splits option.splits if_splits)

lemma run_cons:
  "for_each exec (s # steps) w l =
     (case fst (exec s w l) of
        Inl x \<Rightarrow> (Inl x, l @ events_of s)
      | Inr _ \<Rightarrow> for_each exec steps w (l @ events_of s))"
  using exec_log [of s w l]
  by (cases "exec s w l") (auto simp add: seq_def bind_def split: sum.splits)

lemma run_log:
  "\<exists>k\<le>length steps.
     snd (for_each exec steps w l) = l @ concat (map events_of (take k steps))
     \<and> (fst (for_each exec steps w l) = Inr () \<longrightarrow> k = length steps)
     \<and> (\<forall>x. fst (for_each exec steps w l) = Inl x \<longrightarrow> 0 < k \<and> effect_exn x)"
proof (induction steps arbitrary: l)
  case Nil
  then show ?case by (simp add: return_def)
next
  case (Cons s steps)
  show ?case
  proof (cases "fst (exec s w l)")
    case (Inl x)
    then have "for_each exec (s # steps) w l = (Inl x, l @ events_of s)"
      by (subst run_cons) simp
    moreover from Inl have "effect_exn x" by (rule exec_result)
    ultimately show ?thesis
      by (intro exI[of _ "Suc 0"]) simp
  next
    case (Inr u)
    then have eq: "for_each exec (s # steps) w l = for_each exec steps w (l @ events_of s)"
      by (subst run_cons) simp
    from Cons.IH [of "l @ events_of s"] obtain k where k: "k \<le> length steps"
      and a: "snd (for_each exec steps w (l @ events_of s))
              = (l @ events_of s) @ concat (map events_of (take k steps))"
      and b: "fst (for_each exec steps w (l @ events_of s)) = Inr () \<longrightarrow> k = length steps"
      and c: "\<forall>x. fst (for_each exec steps w (l @ events_of s)) = Inl x \<longrightarrow> 0 < k \<and> effect_exn x"
      by blast
    show ?thesis
      using k a b c eq by (intro exI[of _ "Suc k"]) simp
  qed
qed

lemma run_success_log:
  assumes "fst (for_each exec steps w l) = Inr ()"
  shows "snd (for_each exec steps w l) = l @ concat (map events_of steps)"
  using run_log [of steps w l] assms by auto

lemma run_prefix_log:
  "\<exists>rest. l @ concat (map events_of steps) = snd (for_each exec steps w l) @ rest"
proof -
  from run_log [of steps w l] obtain k where
    "snd (for_each exec steps w l) = l @ concat (map events_of (take k steps))" by blast
  moreover have "concat (map events_of steps)
      = concat (map events_of (take k steps)) @ concat (map events_of (drop k steps))"
    by (metis append_take_drop_id concat_append map_append)
  ultimately show ?thesis by simp
qed

lemma run_no_other_exn:
  "fst (for_each exec steps w l) = Inl x \<Longrightarrow> effect_exn x"
  using run_log [of steps w l] by blast

lemma build_success_plan:
  assumes "fst (build target_dir platform debug environ w l) = Inr ()"
  shows "\<exists>env. prepare_environment environ platform (path_join target_dir ''depot_tools'')
                 (os_path_join target_dir [''webrtc'', platform, ''src'']) = Inr env
             \<and> snd (build target_dir platform debug environ w l)
                 = l @ concat (map events_of (build_plan target_dir platform debug env))"
proof -
  let ?webrtc = "os_path_join target_dir [''webrtc'', platform, ''src'']"
  have d: "path_isdir w l ?webrtc"
  proof (rule ccontr)
    assume "\<not> path_isdir w l ?webrtc"
    from build_no_source [OF this, of debug environ] assms show False by simp
  qed
  show ?thesis
  proof (cases "prepare_environment environ platform (path_join target_dir ''depot_tools'') ?webrtc")
    case (Inl e)
    from build_no_path [OF d Inl, of debug] assms show ?thesis by simp
  next
    case (Inr env)
    from build_runs_plan [OF d Inr, of debug] assms
    have "snd (build target_dir platform debug environ w l)
            = l @ concat (map events_of (build_plan target_dir platform debug env))"
      by (simp add: run_success_log)
    with Inr show ?thesis by simp
  qed
qed

text \<open>
  C2. For every platform, build type, debug flag and environment, the generate phase is
  the execution of \<open>generate_plan\<close>, the compile phase of \<open>compile_plan\<close> and the
  assemble phase of \<open>assemble_plan\<close> over the planned targets, and these plans name a
  target's output directory by \<open>outputDirName\<close> alone: the three phases compute the
  same directory string for every target of both platforms. A successful build leaves
  exactly the events of \<open>build_plan\<close> in the log.
\<close>

theorem phases_share_output_directory:
  "run_gn platform build_type debug env
     = for_each exec (generate_plan build_type debug env (planned_targets platform))
   \<and> build_with_ninja platform build_type env
     = for_each exec (compile_plan build_type env (planned_targets platform))
   \<and> copy_build_artifacts platform build_type build_dir
     = for_each exec (assemble_plan platform build_type build_dir)
   \<and> (fst (build target_dir platform debug environ w l) = Inr () \<longrightarrow>
        (\<exists>env'. prepare_environment environ platform (path_join target_dir ''depot_tools'')
                   (os_path_join target_dir [''webrtc'', platform, ''src'']) = Inr env'
              \<and> snd (build target_dir platform debug environ w l)
                  = l @ concat (map events_of (build_plan target_dir platform debug env'))))"
  using build_success_plan [of target_dir platform debug environ w l]
  by (simp add: run_gn_plan build_with_ninja_plan copy_build_artifacts_plan)

subsection \<open>The archive comes before the strip\<close>

lemma archive_first_nth:
  "archive_first es \<Longrightarrow> i < length es \<Longrightarrow> is_strip (es ! i) \<Longrightarrow> \<exists>j<i. is_bitcode_archive (es ! j)"
proof (induction es arbitrary: i)
  case Nil
  then show ?case by simp
next
  case (Cons e es)
  show ?case
  proof (cases "is_bitcode_archive e")
    case True
    then have "\<not> is_strip e"
      by (auto simp add: is_bitcode_archive_def is_strip_def startswith_def split: event.splits)
    with Cons.prems have "0 < i" by (cases i) auto
    with True show ?thesis by (intro exI[of _ 0]) simp
  next
    case False
    with Cons.prems have ns: "\<not> is_strip e" and af: "archive_first es" by auto
    with Cons.prems obtain i' where i': "i = Suc i'" by (cases i) auto
    with Cons.prems have "i' < length es" "is_strip (es ! i')" by auto
    from Cons.IH [OF af this] obtain j where "j < i'" "is_bitcode_archive (es ! j)" by blast
    with i' show ?thesis by (intro exI[of _ "Suc j"]) simp
  qed
qed

lemma archive_first_prefix: "archive_first (a @ b) \<Longrightarrow> archive_first a"
  by (induction a) auto

lemma archive_first_ios_plan:
  "archive_first (concat (map events_of (build_plan target_dir ''ios'' debug env)))"
  by (simp add: build_plan_def Let_def planned_targets_def generate_plan_def compile_plan_def
      assemble_plan_def assemble_ios_plan_def IOS_BUILD_ARCHS_def MACOS_BUILD_ARCHS_def
      ios_target_of_def List.map_filter_def is_strip_def is_bitcode_archive_def startswith_def)

lemma build_ios_archive_first:
  "archive_first (snd (build target_dir ''ios'' debug environ w []))"
proof -
  let ?webrtc = "os_path_join target_dir [''webrtc'', ''ios'', ''src'']"
  show ?thesis
  proof (cases "path_isdir w [] ?webrtc")
    case False
    then show ?thesis
      by (simp add: build_no_source is_strip_def is_bitcode_archive_def)
  next
    case True
    show ?thesis
    proof (cases "prepare_environment environ ''ios'' (path_join target_dir ''depot_tools'') ?webrtc")
      case (Inl e)
      with True show ?thesis by (simp add: build_no_path)
    next
      case (Inr env)
      with True have "build target_dir ''ios'' debug environ w []
                      = for_each exec (build_plan target_dir ''ios'' debug env) w []"
        by (rule build_runs_plan)
      with run_prefix_log [of "[]" "build_plan target_dir ''ios'' debug env" w]
      obtain rest where
        "concat (map events_of (build_plan target_dir ''ios'' debug env))
           = snd (build target_dir ''ios'' debug environ w []) @ rest"
        by auto
      with archive_first_ios_plan [of target_dir debug env] show ?thesis
        by (simp add: archive_first_prefix)
    qed
  qed
qed

lemma answer_at_snoc:
  "answer_at w (l @ [e]) k =
     (if k < length l then answer_at w l k
      else if k = length l then
        (case e of CheckCall cmd env cwd \<Rightarrow> Some (check_call_result w l cmd env cwd) | _ \<Rightarrow> None)
      else None)"
  by (auto simp add: answer_at_def nth_append split: event.splits)

lemma clean_upto_snoc:
  "clean_upto w (l @ [e]) =
     (clean_upto w l \<and>
      went_on (case e of CheckCall cmd env cwd \<Rightarrow> Some (check_call_result w l cmd env cwd)
               | _ \<Rightarrow> None))"
  by (auto simp add: clean_upto_def answer_at_snoc less_Suc_eq)

lemma almost_clean_snoc: "almost_clean w (l @ [e]) = clean_upto w l"
  by (auto simp add: almost_clean_def clean_upto_def answer_at_snoc)

lemma clean_upto_almost: "clean_upto w l \<Longrightarrow> almost_clean w l"
  by (simp add: clean_upto_def almost_clean_def)

lemma sh_went_on:
  assumes "clean_upto w l"
  shows "almost_clean w (snd (sh cmd env cwd w l))
       \<and> (fst (sh cmd env cwd w l) = Inr () \<longrightarrow> clean_upto w (snd (sh cmd env cwd w l)))"
proof -
  let ?l1 = "l @ [Print (''Running cmd: '' @ cmd)]"
  have s: "snd (sh cmd env cwd w l) = ?l1 @ [CheckCall cmd env cwd]"
    using exec_log [of "StSh cmd env cwd" w l] by simp
  have c1: "clean_upto w ?l1"
    using assms by (simp add: clean_upto_snoc went_on_def)
  have r: "fst (sh cmd env cwd w l) = Inr () \<longrightarrow>
             went_on (Some (check_call_result w ?l1 cmd env cwd))"
    by (auto simp add: sh_def seq_def bind_def print_def try_except_def check_call_def
        sys_exit_def throw_def return_def went_on_def split: call_result.splits if_splits)
  from s c1 r show ?thesis
    by (simp only: almost_clean_snoc clean_upto_snoc) simp
qed

lemma exec_went_on:
  assumes "clean_upto w l"
  shows "almost_clean w (snd (exec s w l))
       \<and> (fst (exec s w l) = Inr () \<longrightarrow> clean_upto w (snd (exec s w l)))"
proof (cases s)
  case (StSh cmd env cwd)
  with sh_went_on [OF assms] show ?thesis by simp
next
  case (StMkdirp p)
  have "snd (exec s w l) = l @ events_of s" by (rule exec_log)
  with StMkdirp assms show ?thesis
    by (simp add: almost_clean_snoc clean_upto_snoc went_on_def)
next
  case (StRmr p)
  have "snd (exec s w l) = l @ events_of s" by (rule exec_log)
  with StRmr assms show ?thesis
    by (simp add: almost_clean_snoc clean_upto_snoc went_on_def)
next
  case (StFs op)
  have "snd (exec s w l) = l @ events_of s" by (rule exec_log)
  with StFs assms show ?thesis
    by (simp add: almost_clean_snoc clean_upto_snoc went_on_def)
qed

lemma run_went_on:
  "clean_upto w l \<Longrightarrow>
     almost_clean w (snd (for_each exec steps w l))
     \<and> (fst (for_each exec steps w l) = Inr () \<longrightarrow> clean_upto w (snd (for_each exec steps w l)))"
proof (induction steps arbitrary: l)
  case Nil
  then show ?case by (simp add: return_def clean_upto_almost)
next
  case (Cons s steps)
  show ?case
  proof (cases "fst (exec s w l)")
    case (Inl x)
    then have "for_each exec (s # steps) w l = (Inl x, l @ events_of s)"
      by (subst run_cons) simp
    with exec_went_on [OF Cons.prems, of s] exec_log [of s w l] show ?thesis by simp
  next
    case (Inr u)
    then have eq: "for_each exec (s # steps) w l = for_each exec steps w (l @ events_of s)"
      by (subst run_cons) simp
    from Inr exec_went_on [OF Cons.prems, of s] exec_log [of s w l]
    have "clean_upto w (l @ events_of s)" by simp
    from Cons.IH [OF this] eq show ?thesis by simp
  qed
qed

lemma build_ios_almost_clean:
  "almost_clean w (snd (build target_dir ''ios'' debug environ w []))"
proof -
  let ?webrtc = "os_path_join target_dir [''webrtc'', ''ios'', ''src'']"
  have c0: "clean_upto w []" by (simp add: clean_upto_def)
  show ?thesis
  proof (cases "path_isdir w [] ?webrtc")
    case False
    then show ?thesis
      by (simp add: build_no_source almost_clean_def)
  next
    case True
    show ?thesis
    proof (cases "prepare_environment environ ''ios'' (path_join target_dir ''depot_tools'') ?webrtc")
      case (Inl e)
      with True show ?thesis by (simp add: build_no_path almost_clean_def)
    next
      case (Inr env)
      with True have "build target_dir ''ios'' debug environ w []
                      = for_each exec (build_plan target_dir ''ios'' debug env) w []"
        by (rule build_runs_plan)
      with run_went_on [OF c0, of "build_plan target_dir ''ios'' debug env"] show ?thesis
        by simp
    qed
  qed
qed

text \<open>
  C3, amended: in the log of every iOS build, in every world, a bitcode-strip command
  stands after the command that makes the bitcode-preserving archive, and that archive
  command either ended with return code 0, so that the archive has been produced, or was
  interrupted. In a run whose archive command is not interrupted, no strip command is
  issued before the archive has been produced.
\<close>

theorem strip_after_archive_command:
  assumes "i < length (snd (build target_dir ''ios'' debug environ w []))"
    and "is_strip (snd (build target_dir ''ios'' debug environ w []) ! i)"
  shows "\<exists>j<i. is_bitcode_archive (snd (build target_dir ''ios'' debug environ w []) ! j)
              \<and> (answer_at w (snd (build target_dir ''ios'' debug environ w [])) j
                    = Some (Returncode 0)
                  \<or> answer_at w (snd (build target_dir ''ios'' debug environ w [])) j
                    = Some Interrupt)"
proof -
  let ?log = "snd (build target_dir ''ios'' debug environ w [])"
  from archive_first_nth [OF build_ios_archive_first assms]
  obtain j where j: "j < i" and a: "is_bitcode_archive (?log ! j)" by blast
  from j assms(1) have "Suc j < length ?log" by simp
  with build_ios_almost_clean [of w target_dir debug environ]
  have g: "went_on (answer_at w ?log j)" by (simp add: almost_clean_def)
  from a j assms(1) have "answer_at w ?log j \<noteq> None"
    by (auto simp add: answer_at_def is_bitcode_archive_def split: event.splits)
  with g have "answer_at w ?log j = Some (Returncode 0) \<or> answer_at w ?log j = Some Interrupt"
    by (simp add: went_on_def)
  with j a show ?thesis by blast
qed

subsection \<open>Transient directories\<close>





subsection \<open>The ABI table\<close>

text \<open>
  C10. Every architecture of \<open>ANDROID_BUILD_CPUS\<close> has an entry in
  \<open>ANDROID_CPU_ABI_MAP\<close> (arm to armeabi-v7a, arm64 to arm64-v8a, x86 to x86, x64 to
  x86_64), and the assembly of the single-slice platform never ends with \<open>KeyError\<close>,
  in any world.
\<close>

theorem abi_lookup_total:
  "(\<forall>cpu \<in> set ANDROID_BUILD_CPUS. \<exists>abi. dict_get ANDROID_CPU_ABI_MAP cpu = Inr abi)
   \<and> map (dict_get ANDROID_CPU_ABI_MAP) ANDROID_BUILD_CPUS
       = [Inr ''armeabi-v7a'', Inr ''arm64-v8a'', Inr ''x86'', Inr ''x86_64'']
   \<and> (platform \<noteq> ''ios'' \<longrightarrow>
        fst (copy_build_artifacts platform build_type build_dir w l) \<noteq> Inl (KeyError k))"
proof -
  have "fst (copy_build_artifacts platform build_type build_dir w l) \<noteq> Inl (KeyError k)"
  proof
    assume "fst (copy_build_artifacts platform build_type build_dir w l) = Inl (KeyError k)"
    then have "effect_exn (KeyError k)"
      by (simp add: copy_build_artifacts_plan run_no_other_exn)
    then show False by (simp add: effect_exn_def)
  qed
  then show ?thesis
    by (simp add: ANDROID_BUILD_CPUS_def ANDROID_CPU_ABI_MAP_def dict_get_def)
qed

section \<open>Concrete runs\<close>

lemma rigged_simps:
  "path_isdir (rigged n r) l p = True"
  "check_call_result (rigged n r) l cmd env cwd = (if length l = n then r else Returncode 0)"
  "os_error (rigged n r) l op = None"
  by (simp_all add: rigged_def)

lemma calm_simps:
  "path_isdir calm l p = True"
  "check_call_result calm l cmd env cwd = Returncode 0"
  "os_error calm l op = None"
  by (simp_all add: calm_def)

lemma env_android:
  "prepare_environment [(''PATH'', ''/usr/bin'')] ''android''
     (path_join ''/w/build_webrtc'' ''depot_tools'')
     (os_path_join ''/w/build_webrtc'' [''webrtc'', ''android'', ''src''])
   = Inr [(''PATH'', ''/usr/bin:/w/build_webrtc/depot_tools:/w/build_webrtc/webrtc/android/src/third_party/android_sdk/public/platform-tools:/w/build_webrtc/webrtc/android/src/third_party/android_sdk/public/tools:/w/build_webrtc/webrtc/android/src/build/android'')]"
  by (simp add: prepare_environment_def dict_get_def path_join_def os_path_join_def
      startswith_def endswith_def)

lemma env_ios:
  "prepare_environment [(''PATH'', ''/usr/bin'')] ''ios''
     (path_join ''/w/build_webrtc'' ''depot_tools'')
     (os_path_join ''/w/build_webrtc'' [''webrtc'', ''ios'', ''src''])
   = Inr [(''PATH'', ''/usr/bin:/w/build_webrtc/depot_tools'')]"
  by (simp add: prepare_environment_def dict_get_def path_join_def os_path_join_def
      startswith_def endswith_def)

lemma exec_calm: "exec s calm l = (Inr (), l @ events_of s)"
  by (cases s)
    (auto simp add: sh_def mkdirp_def rmr_def fs_call_def os_makedirs_def shutil_rmtree_def
      seq_def bind_def print_def try_except_def check_call_def return_def calm_def)

lemma run_calm: "for_each exec steps calm l = (Inr (), l @ concat (map events_of steps))"
  by (induction steps arbitrary: l) (simp_all add: return_def seq_def bind_def exec_calm)

lemma build_calm:
  assumes "prepare_environment environ platform (path_join target_dir ''depot_tools'')
             (os_path_join target_dir [''webrtc'', platform, ''src'']) = Inr env"
  shows "build target_dir platform debug environ calm []
           = (Inr (), concat (map events_of (build_plan target_dir platform debug env)))"
proof -
  have "path_isdir calm [] (os_path_join target_dir [''webrtc'', platform, ''src''])"
    by (simp add: calm_simps)
  from build_runs_plan [OF this assms] show ?thesis
    by (simp add: run_calm)
qed

lemma build_rigged_fail:
  "build ''/w/build_webrtc'' ''android'' False [(''PATH'', ''/usr/bin'')] (rigged 5 (Returncode 3)) []
   = (Inl (SystemExit 3),
      [FsCall (Chdir ''/w/build_webrtc/webrtc/android/src''),
       FsCall (Rmtree ''out''),
       Print (''Running cmd: '' @ ''gn gen out/Release-arm '' @ gn_args_of False (AndroidTarget ''arm'')),
       CheckCall (''gn gen out/Release-arm '' @ gn_args_of False (AndroidTarget ''arm''))
         (Some [(''PATH'', ''/usr/bin:/w/build_webrtc/depot_tools:/w/build_webrtc/webrtc/android/src/third_party/android_sdk/public/platform-tools:/w/build_webrtc/webrtc/android/src/third_party/android_sdk/public/tools:/w/build_webrtc/webrtc/android/src/build/android'')]) None,
       Print (''Running cmd: '' @ ''gn gen out/Release-arm64 '' @ gn_args_of False (AndroidTarget ''arm64'')),
       CheckCall (''gn gen out/Release-arm64 '' @ gn_args_of False (AndroidTarget ''arm64''))
         (Some [(''PATH'', ''/usr/bin:/w/build_webrtc/depot_tools:/w/build_webrtc/webrtc/android/src/third_party/android_sdk/public/platform-tools:/w/build_webrtc/webrtc/android/src/third_party/android_sdk/public/tools:/w/build_webrtc/webrtc/android/src/build/android'')]) None])"
proof -
  have "path_isdir (rigged 5 (Returncode 3)) []
          (os_path_join ''/w/build_webrtc'' [''webrtc'', ''android'', ''src''])"
    by (simp add: rigged_def)
  from build_runs_plan [OF this env_android]
  show ?thesis
    by (simp add: build_plan_def Let_def planned_targets_def generate_plan_def compile_plan_def
      assemble_plan_def assemble_android_plan_def ANDROID_BUILD_CPUS_def
      seq_def bind_def sh_def rmr_def mkdirp_def fs_call_def shutil_rmtree_def os_makedirs_def
      print_def try_except_def check_call_def sys_exit_def throw_def return_def rigged_def
      path_join_def os_path_join_def startswith_def endswith_def
      del: bind_assoc)
qed

lemma main_rigged_fail:
  "main_fn (\<lambda>p. p) android_build_args [(''PATH'', ''/usr/bin'')] (rigged 5 (Returncode 3)) []
   = build ''/w/build_webrtc'' ''android'' False [(''PATH'', ''/usr/bin'')] (rigged 5 (Returncode 3)) []"
  by (simp add: main_fn_def android_build_args_def Let_def seq_def bind_isdir rigged_simps
      path_join_def startswith_def endswith_def)
    (simp add: bind_def build_rigged_fail)

lemma ios_calm_log:
  "snd (build ''/w/build_webrtc'' ''ios'' False [(''PATH'', ''/usr/bin'')] calm [])
     = concat (map events_of
         (build_plan ''/w/build_webrtc'' ''ios'' False
            [(''PATH'', ''/usr/bin:/w/build_webrtc/depot_tools'')]))"
  by (simp add: build_calm [OF env_ios])

lemma ios_plan_events_31:
  "length (concat (map events_of (build_plan target_dir ''ios'' debug env))) = 39
   \<and> is_strip (concat (map events_of (build_plan target_dir ''ios'' debug env)) ! 31)
   \<and> is_archive_cmd (concat (map events_of (build_plan target_dir ''ios'' debug env)) ! 28)
   \<and> is_archive_cmd (concat (map events_of (build_plan target_dir ''ios'' debug env)) ! 37)"
  by (simp add: build_plan_def Let_def planned_targets_def generate_plan_def compile_plan_def
      assemble_plan_def assemble_ios_plan_def IOS_BUILD_ARCHS_def MACOS_BUILD_ARCHS_def
      ios_target_of_def List.map_filter_def is_strip_def is_archive_cmd_def startswith_def)

lemma ios_plan_event_28:
  "concat (map events_of (build_plan target_dir ''ios'' debug env)) ! 28
     = CheckCall ''tar zcf WebRTC.xcframework-bitcode.tgz WebRTC.xcframework'' None
         (Some (os_path_join target_dir [''build'', ''ios'']))
   \<and> length (filter is_bitcode_archive
        (concat (map events_of (build_plan target_dir ''ios'' debug env)))) = 1"
  by (simp add: build_plan_def Let_def planned_targets_def generate_plan_def compile_plan_def
      assemble_plan_def assemble_ios_plan_def IOS_BUILD_ARCHS_def MACOS_BUILD_ARCHS_def
      ios_target_of_def List.map_filter_def is_bitcode_archive_def)

lemma exec_benign:
  assumes "\<And>l cmd env cwd. check_call_result w l cmd env cwd = Returncode 0
                              \<or> check_call_result w l cmd env cwd = Interrupt"
    and "\<And>l op. os_error w l op = None"
  shows "exec s w l = (Inr (), l @ events_of s)"
proof (cases s)
  case (StSh cmd env cwd)
  from assms(1) [of "l @ [Print (''Running cmd: '' @ cmd)]" cmd env cwd] StSh show ?thesis
    by (auto simp add: sh_def seq_def bind_def print_def try_except_def check_call_def return_def)
next
  case (StMkdirp p)
  with assms(2) show ?thesis
    by (simp add: mkdirp_def os_makedirs_def fs_call_def try_except_def)
next
  case (StRmr p)
  with assms(2) show ?thesis
    by (simp add: rmr_def shutil_rmtree_def fs_call_def try_except_def)
next
  case (StFs op)
  with assms(2) show ?thesis
    by (simp add: fs_call_def)
qed

lemma run_benign:
  assumes "\<And>l cmd env cwd. check_call_result w l cmd env cwd = Returncode 0
                              \<or> check_call_result w l cmd env cwd = Interrupt"
    and "\<And>l op. os_error w l op = None"
  shows "for_each exec steps w l = (Inr (), l @ concat (map events_of steps))"
proof (induction steps arbitrary: l)
  case Nil
  show ?case by (simp add: return_def)
next
  case (Cons s steps)
  from exec_benign [of w, OF assms] have "exec s w l = (Inr (), l @ events_of s)" .
  with Cons.IH [of "l @ events_of s"] show ?case
    by (subst run_cons) simp
qed

lemma ios_interrupted_archive_run:
  "build ''/w/build_webrtc'' ''ios'' False [(''PATH'', ''/usr/bin'')] (rigged 28 Interrupt) []
     = (Inr (), concat (map events_of
         (build_plan ''/w/build_webrtc'' ''ios'' False
            [(''PATH'', ''/usr/bin:/w/build_webrtc/depot_tools'')])))"
proof -
  have d: "path_isdir (rigged 28 Interrupt) []
          (os_path_join ''/w/build_webrtc'' [''webrtc'', ''ios'', ''src''])"
    by (simp add: rigged_simps)
  have r: "for_each exec
             (build_plan ''/w/build_webrtc'' ''ios'' False
                [(''PATH'', ''/usr/bin:/w/build_webrtc/depot_tools'')])
             (rigged 28 Interrupt) []
           = (Inr (), [] @ concat (map events_of
               (build_plan ''/w/build_webrtc'' ''ios'' False
                  [(''PATH'', ''/usr/bin:/w/build_webrtc/depot_tools'')])))"
    by (rule run_benign) (simp_all add: rigged_simps)
  from build_runs_plan [OF d env_ios] r show ?thesis by simp
qed

text \<open>
  C1 on an Android build in which the second generator command returns 3: six events,
  then exit status 3.
\<close>

theorem nonzero_exit_stops_run_witness:
  "failed_at (rigged 5 (Returncode 3))
     (snd (main_fn (\<lambda>p. p) android_build_args [(''PATH'', ''/usr/bin'')] (rigged 5 (Returncode 3)) []))
     5 3
   \<and> fst (main_fn (\<lambda>p. p) android_build_args [(''PATH'', ''/usr/bin'')] (rigged 5 (Returncode 3)) [])
       = Inl (SystemExit 3)
   \<and> length (snd (main_fn (\<lambda>p. p) android_build_args [(''PATH'', ''/usr/bin'')]
                      (rigged 5 (Returncode 3)) [])) = 6
   \<and> exit_status (fst (main_fn (\<lambda>p. p) android_build_args [(''PATH'', ''/usr/bin'')]
                           (rigged 5 (Returncode 3)) [])) = 3"
proof -
  have h: "failed_at (rigged 5 (Returncode 3))
     (snd (main_fn (\<lambda>p. p) android_build_args [(''PATH'', ''/usr/bin'')] (rigged 5 (Returncode 3)) []))
     5 3"
    by (simp add: main_rigged_fail build_rigged_fail failed_at_def rigged_simps)
  from nonzero_exit_stops_run [OF h] h show ?thesis by (auto simp add: exit_status_def)
qed

text \<open>C5 in a world without directories.\<close>

theorem missing_source_tree_witness:
  "\<not> path_isdir no_source_world [] (os_path_join ''/w/build_webrtc'' [''webrtc'', ''ios'', ''src''])
   \<and> build ''/w/build_webrtc'' ''ios'' False [(''PATH'', ''/usr/bin'')] no_source_world [] =
           (Inl (SystemExit 1),
            [Print ''WebRTC source not found, did you forget to run --setup?''])
   \<and> sync ''/w/build_webrtc'' ''ios'' [(''PATH'', ''/usr/bin'')] no_source_world [] =
           (Inl (SystemExit 1),
            [Print ''WebRTC source not found, did you forget to run --setup?''])
   \<and> exit_status (fst (build ''/w/build_webrtc'' ''ios'' False [(''PATH'', ''/usr/bin'')]
                           no_source_world [])) = 1"
proof -
  have h: "\<not> path_isdir no_source_world []
             (os_path_join ''/w/build_webrtc'' [''webrtc'', ''ios'', ''src''])"
    by (simp add: no_source_world_def)
  from missing_source_tree [OF h, of False "[(''PATH'', ''/usr/bin'')]"] h show ?thesis
    by (auto simp add: exit_status_def)
qed

text \<open>
  C4, as the claim states it, fails in its second half: after an interrupted command the
  run goes on. Here the first generator command of an Android build is interrupted; the
  second one is issued all the same, and the build runs to its end.
\<close>

theorem interrupt_stops_run_counterexample:
  "snd (build ''/w/build_webrtc'' ''android'' False [(''PATH'', ''/usr/bin'')] (rigged 3 Interrupt) []) ! 3
     = CheckCall (''gn gen out/Release-arm '' @ gn_args_of False (AndroidTarget ''arm''))
         (Some [(''PATH'', ''/usr/bin:/w/build_webrtc/depot_tools:/w/build_webrtc/webrtc/android/src/third_party/android_sdk/public/platform-tools:/w/build_webrtc/webrtc/android/src/third_party/android_sdk/public/tools:/w/build_webrtc/webrtc/android/src/build/android'')]) None
   \<and> check_call_result (rigged 3 Interrupt)
        (take 3 (snd (build ''/w/build_webrtc'' ''android'' False [(''PATH'', ''/usr/bin'')]
                        (rigged 3 Interrupt) [])))
        (''gn gen out/Release-arm '' @ gn_args_of False (AndroidTarget ''arm''))
        (Some [(''PATH'', ''/usr/bin:/w/build_webrtc/depot_tools:/w/build_webrtc/webrtc/android/src/third_party/android_sdk/public/platform-tools:/w/build_webrtc/webrtc/android/src/third_party/android_sdk/public/tools:/w/build_webrtc/webrtc/android/src/build/android'')]) None
       = Interrupt
   \<and> snd (build ''/w/build_webrtc'' ''android'' False [(''PATH'', ''/usr/bin'')] (rigged 3 Interrupt) []) ! 5
     = CheckCall (''gn gen out/Release-arm64 '' @ gn_args_of False (AndroidTarget ''arm64''))
         (Some [(''PATH'', ''/usr/bin:/w/build_webrtc/depot_tools:/w/build_webrtc/webrtc/android/src/third_party/android_sdk/public/platform-tools:/w/build_webrtc/webrtc/android/src/third_party/android_sdk/public/tools:/w/build_webrtc/webrtc/android/src/build/android'')]) None
   \<and> fst (build ''/w/build_webrtc'' ''android'' False [(''PATH'', ''/usr/bin'')] (rigged 3 Interrupt) [])
     = Inr ()"
proof -
  have "path_isdir (rigged 3 Interrupt) []
          (os_path_join ''/w/build_webrtc'' [''webrtc'', ''android'', ''src''])"
    by (simp add: rigged_simps)
  from build_runs_plan [OF this env_android]
  show ?thesis
    by (simp add: build_plan_def Let_def planned_targets_def generate_plan_def compile_plan_def
      assemble_plan_def assemble_android_plan_def ANDROID_BUILD_CPUS_def
      seq_def bind_def sh_def rmr_def mkdirp_def fs_call_def shutil_rmtree_def os_makedirs_def
      print_def try_except_def check_call_def sys_exit_def throw_def return_def rigged_simps
      path_join_def os_path_join_def startswith_def endswith_def
      del: bind_assoc)
qed

text \<open>C4, amended, on an interrupted \<open>gclient sync\<close>.\<close>

theorem interrupt_swallowed_run_continues_witness:
  "check_call_result (rigged 1 Interrupt) ([] @ [Print (''Running cmd: '' @ ''gclient sync'')])
      ''gclient sync'' None None = Interrupt
   \<and> sh ''gclient sync'' None None (rigged 1 Interrupt) []
        = (Inr (), [Print ''Running cmd: gclient sync'', CheckCall ''gclient sync'' None None])
   \<and> main_fn (\<lambda>p. p) android_build_args [(''PATH'', ''/usr/bin'')] (rigged 1 Interrupt) []
        = main_fn (\<lambda>p. p) android_build_args [(''PATH'', ''/usr/bin'')] (forgive (rigged 1 Interrupt)) []"
  using interrupt_swallowed_run_continues
    [of "rigged 1 Interrupt" "[]" "''gclient sync''" None None "\<lambda>p. p" android_build_args
        "[(''PATH'', ''/usr/bin'')]"]
  by (simp add: rigged_simps)

text \<open>C2 on a release build for iOS in the calm world.\<close>

theorem phases_share_output_directory_witness:
  "fst (build ''/w/build_webrtc'' ''ios'' False [(''PATH'', ''/usr/bin'')] calm []) = Inr ()
   \<and> snd (build ''/w/build_webrtc'' ''ios'' False [(''PATH'', ''/usr/bin'')] calm [])
       = concat (map events_of
           (build_plan ''/w/build_webrtc'' ''ios'' False [(''PATH'', ''/usr/bin:/w/build_webrtc/depot_tools'')]))
   \<and> map (outputDirName ''Release'') (planned_targets ''ios'')
       = [''out/Release-ios-device-arm64'', ''out/Release-ios-simulator-arm64'',
          ''out/Release-ios-simulator-x64'', ''out/Release-macos-x64'']"
proof -
  have s: "fst (build ''/w/build_webrtc'' ''ios'' False [(''PATH'', ''/usr/bin'')] calm []) = Inr ()"
    by (simp add: build_calm [OF env_ios])
  from phases_share_output_directory
         [of "''ios''" "''Release''" False "[]" "[]" "''/w/build_webrtc''" "[(''PATH'', ''/usr/bin'')]"
             calm "[]"] s
  have "snd (build ''/w/build_webrtc'' ''ios'' False [(''PATH'', ''/usr/bin'')] calm [])
       = concat (map events_of
           (build_plan ''/w/build_webrtc'' ''ios'' False [(''PATH'', ''/usr/bin:/w/build_webrtc/depot_tools'')]))"
    by (simp add: env_ios)
  with s show ?thesis
    by (simp add: planned_targets_def IOS_BUILD_ARCHS_def MACOS_BUILD_ARCHS_def ios_target_of_def
        List.map_filter_def)
qed

text \<open>
  C3, as the claim states it, fails: a strip command can be issued although the archive
  has not been produced. Here the archive command of an iOS build, event 28 and the only
  one of its kind in the run, is interrupted; the strip command is issued at event 31 all
  the same, and the build ends normally.
\<close>

theorem strip_without_archive_counterexample:
  "fst (build ''/w/build_webrtc'' ''ios'' False [(''PATH'', ''/usr/bin'')] (rigged 28 Interrupt) [])
     = Inr ()
   \<and> is_strip
        (snd (build ''/w/build_webrtc'' ''ios'' False [(''PATH'', ''/usr/bin'')]
                (rigged 28 Interrupt) []) ! 31)
   \<and> is_bitcode_archive
        (snd (build ''/w/build_webrtc'' ''ios'' False [(''PATH'', ''/usr/bin'')]
                (rigged 28 Interrupt) []) ! 28)
   \<and> answer_at (rigged 28 Interrupt)
        (snd (build ''/w/build_webrtc'' ''ios'' False [(''PATH'', ''/usr/bin'')]
                (rigged 28 Interrupt) [])) 28
       = Some Interrupt
   \<and> length (filter is_bitcode_archive
        (snd (build ''/w/build_webrtc'' ''ios'' False [(''PATH'', ''/usr/bin'')]
                (rigged 28 Interrupt) []))) = 1"
proof -
  let ?plan = "build_plan ''/w/build_webrtc'' ''ios'' False
                 [(''PATH'', ''/usr/bin:/w/build_webrtc/depot_tools'')]"
  have a: "answer_at (rigged 28 Interrupt) (concat (map events_of ?plan)) 28 = Some Interrupt"
    by (simp add: answer_at_def ios_plan_event_28 ios_plan_events_31 rigged_simps)
  have b: "is_bitcode_archive (concat (map events_of ?plan) ! 28)"
    by (simp add: ios_plan_event_28 is_bitcode_archive_def)
  from a b show ?thesis
    by (simp add: ios_interrupted_archive_run ios_plan_events_31 ios_plan_event_28)
qed

text \<open>
  C3, amended, on the release build for iOS in the calm world: event 31 is the first strip
  command, and the archive command before it ended with return code 0.
\<close>

theorem strip_after_archive_command_witness:
  "31 < length (snd (build ''/w/build_webrtc'' ''ios'' False [(''PATH'', ''/usr/bin'')] calm []))
   \<and> is_strip (snd (build ''/w/build_webrtc'' ''ios'' False [(''PATH'', ''/usr/bin'')] calm []) ! 31)
   \<and> (\<exists>j<31. is_bitcode_archive
          (snd (build ''/w/build_webrtc'' ''ios'' False [(''PATH'', ''/usr/bin'')] calm []) ! j)
        \<and> (answer_at calm
              (snd (build ''/w/build_webrtc'' ''ios'' False [(''PATH'', ''/usr/bin'')] calm [])) j
              = Some (Returncode 0)
            \<or> answer_at calm
              (snd (build ''/w/build_webrtc'' ''ios'' False [(''PATH'', ''/usr/bin'')] calm [])) j
              = Some Interrupt))"
proof -
  have a: "31 < length (snd (build ''/w/build_webrtc'' ''ios'' False [(''PATH'', ''/usr/bin'')] calm []))"
    by (simp add: ios_calm_log ios_plan_events_31)
  have b: "is_strip (snd (build ''/w/build_webrtc'' ''ios'' False [(''PATH'', ''/usr/bin'')] calm []) ! 31)"
    by (simp add: ios_calm_log ios_plan_events_31)
  from strip_after_archive_command [OF a b] a b show ?thesis by blast
qed


text \<open>C10 on the architecture \<open>x64\<close>.\<close>

theorem abi_lookup_total_witness:
  "dict_get ANDROID_CPU_ABI_MAP ''x64'' = Inr ''x86_64''
   \<and> ''android'' \<noteq> ''ios''
   \<and> fst (copy_build_artifacts ''android'' ''Release'' ''/w/build_webrtc/build/android'' calm [])
        \<noteq> Inl (KeyError ''x64'')"
  using abi_lookup_total [of "''android''" "''Release''" "''/w/build_webrtc/build/android''" calm "[]" "''x64''"]
  by (simp add: ANDROID_BUILD_CPUS_def)

end
